theory Spec2Isabelle
  imports Complex_Main
begin

section \<open>Errors and numeric values\<close>

text \<open>
  The exceptions the validator can raise. \<open>Exception\<close> carries the message of the
  source's \<^verbatim>\<open>raise Exception(...)\<close>, \<open>AssertionError\<close> the message of a failed
  \<^verbatim>\<open>assert\<close>. \<open>AttributeError\<close> is the read of an instance attribute that no earlier
  call has set, \<open>IndexError\<close> and \<open>ValueError\<close> are the errors numpy raises for an
  index out of range, a mask of the wrong length, an empty stack or a negative size.
  \<open>TypeError\<close> is numpy's complaint about weights of another shape than the values.
  \<open>UpstreamError\<close> is whatever a supplied model raises. \<open>RankNotModelled\<close> marks the one
  place where the model stops: a cached array of three or more dimensions, which the
  tests would slice into matrices rather than vectors.
\<close>

datatype error =
    Exception string
  | AssertionError string
  | AttributeError
  | IndexError
  | ValueError
  | TypeError
  | ZeroDivisionError
  | UpstreamError string
  | RankNotModelled

text \<open>
  A float64 is modelled as an exact real or one of the three special values; rounding
  and the sign of zero are not modelled. Stored arrays hold finite values (\<open>real\<close>);
  the results of operations that can leave the finite values from finite operands
  (a mean over no rows, a division by zero) are \<open>npfloat\<close>.
\<close>

datatype npfloat = Fin real | PInf | NInf | NaN

fun np_neg :: "npfloat \<Rightarrow> npfloat" where
  "np_neg (Fin a) = Fin (- a)"
| "np_neg PInf = NInf"
| "np_neg NInf = PInf"
| "np_neg NaN = NaN"

fun np_add :: "npfloat \<Rightarrow> npfloat \<Rightarrow> npfloat" where
  "np_add (Fin a) (Fin b) = Fin (a + b)"
| "np_add NaN _ = NaN"
| "np_add _ NaN = NaN"
| "np_add PInf NInf = NaN"
| "np_add NInf PInf = NaN"
| "np_add PInf _ = PInf"
| "np_add _ PInf = PInf"
| "np_add NInf _ = NInf"
| "np_add _ NInf = NInf"

definition np_sub :: "npfloat \<Rightarrow> npfloat \<Rightarrow> npfloat" where
  "np_sub a b = np_add a (np_neg b)"

fun np_abs :: "npfloat \<Rightarrow> npfloat" where
  "np_abs (Fin a) = Fin \<bar>a\<bar>"
| "np_abs PInf = PInf"
| "np_abs NInf = PInf"
| "np_abs NaN = NaN"

text \<open>The sign of a value that is not NaN: negative or not.\<close>

fun np_negative :: "npfloat \<Rightarrow> bool" where
  "np_negative (Fin a) = (a < 0)"
| "np_negative NInf = True"
| "np_negative _ = False"

definition np_signed_inf :: "bool \<Rightarrow> npfloat" where
  "np_signed_inf neg = (if neg then NInf else PInf)"

fun np_mul :: "npfloat \<Rightarrow> npfloat \<Rightarrow> npfloat" where
  "np_mul (Fin a) (Fin b) = Fin (a * b)"
| "np_mul NaN _ = NaN"
| "np_mul _ NaN = NaN"
| "np_mul (Fin a) y = (if a = 0 then NaN else np_signed_inf ((a < 0) \<noteq> np_negative y))"
| "np_mul x (Fin b) = (if b = 0 then NaN else np_signed_inf (np_negative x \<noteq> (b < 0)))"
| "np_mul x y = np_signed_inf (np_negative x \<noteq> np_negative y)"

fun np_true_divide :: "npfloat \<Rightarrow> npfloat \<Rightarrow> npfloat" where
  "np_true_divide (Fin a) (Fin b) =
     (if b \<noteq> 0 then Fin (a / b)
      else if a = 0 then NaN else np_signed_inf (a < 0))"
| "np_true_divide NaN _ = NaN"
| "np_true_divide _ NaN = NaN"
| "np_true_divide (Fin a) _ = Fin 0"
| "np_true_divide x (Fin b) = np_signed_inf (np_negative x \<noteq> (b < 0))"
| "np_true_divide _ _ = NaN"

definition np_sum :: "npfloat list \<Rightarrow> npfloat" where
  "np_sum xs = foldl np_add (Fin 0) xs"

text \<open>
  \<^verbatim>\<open>astype(int)\<close> on a float array gives an array of 64-bit integers. A value is
  truncated toward zero; when the truncation is not a 64-bit integer, the conversion
  (the instruction \<^verbatim>\<open>cvttsd2si\<close> of x86-64) returns the least one, \<open>- 2 ^ 63\<close>.
  Weights are finite reals here; an infinite or undefined weight is converted to
  \<open>- 2 ^ 63\<close> as well, which the list of reals does not represent.
\<close>

definition int64_min :: int where
  "int64_min = - (2 ^ 63)"

definition int64_max :: int where
  "int64_max = 2 ^ 63 - 1"

definition trunc_toward_zero :: "real \<Rightarrow> int" where
  "trunc_toward_zero w = (if 0 \<le> w then \<lfloor>w\<rfloor> else \<lceil>w\<rceil>)"

definition astype_int :: "real \<Rightarrow> int" where
  "astype_int w =
     (let t = trunc_toward_zero w
      in if int64_min \<le> t \<and> t \<le> int64_max then t else int64_min)"

section \<open>Arrays\<close>

text \<open>
  A numpy array is its shape and its entries, read by a multi-index. A vector of the
  source (a column, a weight vector, an outcome vector) is a list.
\<close>

record ndarray =
  shape :: "nat list"
  entry :: "nat list \<Rightarrow> real"

definition ndim :: "ndarray \<Rightarrow> nat" where
  "ndim a = length (shape a)"

definition of_vector :: "real list \<Rightarrow> ndarray" where
  "of_vector xs = \<lparr>shape = [length xs], entry = (\<lambda>idx. case idx of [i] \<Rightarrow> xs ! i | _ \<Rightarrow> 0)\<rparr>"

definition of_rows :: "nat \<Rightarrow> real list list \<Rightarrow> ndarray" where
  "of_rows m rows =
     \<lparr>shape = [length rows, m], entry = (\<lambda>idx. case idx of [i, j] \<Rightarrow> rows ! i ! j | _ \<Rightarrow> 0)\<rparr>"

text \<open>\<^verbatim>\<open>np.stack(vals)\<close>: a new leading axis; the list must be non-empty and of one shape.\<close>

definition np_stack :: "ndarray list \<Rightarrow> error + ndarray" where
  "np_stack vals =
     (if vals = [] then Inl ValueError
      else if \<exists>v \<in> set vals. shape v \<noteq> shape (hd vals) then Inl ValueError
      else Inr \<lparr>shape = length vals # shape (hd vals),
                entry = (\<lambda>idx. case idx of [] \<Rightarrow> 0 | i # r \<Rightarrow> entry (vals ! i) r)\<rparr>)"

text \<open>\<^verbatim>\<open>a.T\<close>: the axes reversed.\<close>

definition np_T :: "ndarray \<Rightarrow> ndarray" where
  "np_T a = \<lparr>shape = rev (shape a), entry = (\<lambda>idx. entry a (rev idx))\<rparr>"

text \<open>\<^verbatim>\<open>a.squeeze()\<close>: every axis of length one is removed.\<close>

fun unsqueeze :: "nat list \<Rightarrow> nat list \<Rightarrow> nat list" where
  "unsqueeze [] idx = []"
| "unsqueeze (d # ds) idx =
     (if d = 1 then 0 # unsqueeze ds idx
      else (case idx of [] \<Rightarrow> [] | i # r \<Rightarrow> i # unsqueeze ds r))"

definition np_squeeze :: "ndarray \<Rightarrow> ndarray" where
  "np_squeeze a =
     \<lparr>shape = filter (\<lambda>d. d \<noteq> 1) (shape a), entry = (\<lambda>idx. entry a (unsqueeze (shape a) idx))\<rparr>"

text \<open>\<^verbatim>\<open>a[..., np.newaxis]\<close>: a trailing axis of length one.\<close>

definition newaxis_last :: "ndarray \<Rightarrow> ndarray" where
  "newaxis_last a = \<lparr>shape = shape a @ [1], entry = (\<lambda>idx. entry a (butlast idx))\<rparr>"

text \<open>
  The source's \<^verbatim>\<open>if a.ndim == 1: a = a[..., np.newaxis]\<close>, under the comment
  "standardize to always have 2 dimensions".
\<close>

definition standardize_2d :: "ndarray \<Rightarrow> ndarray" where
  "standardize_2d a = (if ndim a = 1 then newaxis_last a else a)"

text \<open>
  \<^verbatim>\<open>a[:, k]\<close>: on a matrix the column \<open>k\<close>; on an array of fewer than two dimensions
  numpy raises IndexError (too many indices), as it does for \<open>k\<close> out of range.
\<close>

definition column :: "ndarray \<Rightarrow> nat \<Rightarrow> error + real list" where
  "column a k =
     (if ndim a < 2 then Inl IndexError
      else if 2 < ndim a then Inl RankNotModelled
      else if shape a ! 1 \<le> k then Inl IndexError
      else Inr (map (\<lambda>i. entry a [i, k]) [0..<shape a ! 0]))"

text \<open>\<^verbatim>\<open>a.shape[0]\<close>: IndexError on a zero-dimensional array.\<close>

definition shape0 :: "ndarray \<Rightarrow> error + nat" where
  "shape0 a = (case shape a of [] \<Rightarrow> Inl IndexError | n # _ \<Rightarrow> Inr n)"

text \<open>
  \<^verbatim>\<open>np.average(a, axis=0, weights=w)\<close> on a matrix: one mean per column. Without weights
  it is the plain mean, NaN over no rows. With weights numpy raises ValueError when their
  length is not the row count and ZeroDivisionError when they sum to zero. A
  zero-dimensional array has no axis 0.
\<close>

definition np_average_axis0 :: "ndarray \<Rightarrow> real list option \<Rightarrow> error + npfloat list" where
  "np_average_axis0 a weights =
     (if ndim a = 0 then Inl ValueError
      else if ndim a \<noteq> 2 then Inl RankNotModelled
      else let n = shape a ! 0; m = shape a ! 1 in
        (case weights of
           None \<Rightarrow>
             Inr (map (\<lambda>k. if n = 0 then NaN
                           else Fin ((\<Sum>i \<leftarrow> [0..<n]. entry a [i, k]) / real n)) [0..<m])
         | Some w \<Rightarrow>
             if length w \<noteq> n then Inl ValueError
             else if sum_list w = 0 then Inl ZeroDivisionError
             else Inr (map (\<lambda>k. Fin ((\<Sum>i \<leftarrow> [0..<n]. entry a [i, k] * w ! i) / sum_list w))
                        [0..<m])))"

text \<open>\<^verbatim>\<open>np.unique\<close> and \<^verbatim>\<open>np.sort\<close> on a label vector.\<close>

definition np_unique :: "int list \<Rightarrow> int list" where
  "np_unique xs = sort (remdups xs)"

definition np_sort :: "int list \<Rightarrow> int list" where
  "np_sort xs = sort xs"

section \<open>Result objects\<close>

text \<open>The per-arm table of the calibration test (the data frame \<^verbatim>\<open>df_plot\<close>).\<close>

datatype cal_df = Cal_df
  (df_ind: "nat list")
  (df_gate: "real list")
  (df_se_gate: "npfloat list")
  (df_g_cate: "real list")
  (df_se_g_cate: "npfloat list")

datatype cal_results = CalibrationEvaluationResults
  (cal_r_squared: "npfloat list")
  (cal_plot_data_dict: "int \<rightharpoonup> cal_df")
  (cal_treatments: "int list")

datatype blp_results = BLPEvaluationResults
  (blp_params: "real list")
  (blp_errs: "real list")
  (blp_pvals: "real list")
  (blp_treatments: "int list")

type_synonym curve_df = "real list list"

datatype uplift_results = UpliftEvaluationResults
  (uplift_params: "real list")
  (uplift_errs: "real list")
  (uplift_pvals: "npfloat list")
  (uplift_treatments: "int list")
  (uplift_curve_data_dict: "int \<rightharpoonup> curve_df")

datatype all_results = EvaluationResults
  (all_blp_res: blp_results)
  (all_cal_res: cal_results)
  (all_qini_res: uplift_results)
  (all_toc_res: uplift_results)

section \<open>The validator's state\<close>

text \<open>
  The attributes a \<^verbatim>\<open>DRTester\<close> instance acquires through its methods. An attribute
  that has not been set yet (\<^verbatim>\<open>hasattr\<close> is false) is \<open>None\<close>. The source's
  names with a trailing underscore (\<^verbatim>\<open>dr_val_\<close>, \<^verbatim>\<open>cate_preds_val_\<close>, ...) are
  written without it.
\<close>

record drtester =
  Dval :: "int list option"
  treatments :: "int list option"
  n_treat :: "int option"
  fit_on_train :: "bool option"
  dr_train :: "ndarray option"
  dr_val :: "ndarray option"
  ate_val :: "npfloat list option"
  cate_preds_val :: "ndarray option"
  cate_preds_train :: "ndarray option"
  cal_res :: "cal_results option"
  blp_res :: "blp_results option"
  uplift_res :: "uplift_results option"
  res :: "all_results option"

text \<open>A fresh instance, as \<^verbatim>\<open>__init__\<close> leaves it.\<close>

definition init :: drtester where
  "init = \<lparr>Dval = None, treatments = None, n_treat = None, fit_on_train = None,
           dr_train = None, dr_val = None, ate_val = None,
           cate_preds_val = None, cate_preds_train = None,
           cal_res = None, blp_res = None, uplift_res = None, res = None\<rparr>"

text \<open>
  What the validator is given or imports from outside this file, over a type \<open>'x\<close> of
  feature matrices. The nuisance fitters \<^verbatim>\<open>fit_nuisance_cv\<close> and
  \<^verbatim>\<open>fit_nuisance_train\<close> run the supplied regression and propensity models through
  scikit-learn's cross-validation; they are taken here by what they return, a pair of
  prediction matrices or the model's error. \<open>cate_effect\<close> is the CATE model's
  \<^verbatim>\<open>effect(X, T0, T1)\<close>. \<open>calculate_dr_outcomes\<close>, \<open>calc_uplift\<close>,
  \<open>weighted_stat\<close> (in its quantile mode) and \<open>weighted_se\<close> are the helpers of
  \<^verbatim>\<open>utils\<close> and \<^verbatim>\<open>weighted_utils\<close>; \<open>wls_hc1\<close> is the weighted
  least-squares fit with HC1 covariance, returning slope, standard error and p-value;
  \<open>norm_sf\<close> is the standard normal survival function.
\<close>

record 'x env =
  fit_nuisance_cv ::
    "drtester \<Rightarrow> 'x \<Rightarrow> int list \<Rightarrow> real list \<Rightarrow> real list option \<Rightarrow> error + ndarray \<times> ndarray"
  fit_nuisance_train ::
    "drtester \<Rightarrow> 'x \<Rightarrow> int list \<Rightarrow> real list \<Rightarrow> 'x \<Rightarrow> real list option
       \<Rightarrow> error + ndarray \<times> ndarray"
  calculate_dr_outcomes ::
    "int list \<Rightarrow> real list \<Rightarrow> ndarray \<Rightarrow> ndarray \<Rightarrow> int list \<Rightarrow> error + ndarray"
  cate_effect :: "'x \<Rightarrow> int \<Rightarrow> int \<Rightarrow> error + ndarray"
  weighted_stat :: "real list \<Rightarrow> real list \<Rightarrow> int list \<Rightarrow> error + real list"
  weighted_se :: "real list \<Rightarrow> int list \<Rightarrow> error + npfloat"
  wls_hc1 :: "real list \<Rightarrow> real list \<Rightarrow> real list \<Rightarrow> error + real \<times> real \<times> real"
  calc_uplift ::
    "real list \<Rightarrow> real list \<Rightarrow> real list \<Rightarrow> real list \<Rightarrow> string \<Rightarrow> int
       \<Rightarrow> int list \<Rightarrow> int list \<Rightarrow> error + real \<times> real \<times> curve_df"
  norm_sf :: "real \<Rightarrow> real"

section \<open>fit_nuisance\<close>

text \<open>
  The call \<^verbatim>\<open>calculate_dr_outcomes(...)\<close> followed by the standardisation to two
  dimensions.
\<close>

definition dr_outcomes_2d ::
  "'x env \<Rightarrow> int list \<Rightarrow> real list \<Rightarrow> ndarray \<times> ndarray \<Rightarrow> int list \<Rightarrow> error + ndarray" where
  "dr_outcomes_2d E D y preds ts =
     (case calculate_dr_outcomes E D y (fst preds) (snd preds) ts of
        Inl e \<Rightarrow> Inl e
      | Inr dr \<Rightarrow> Inr (standardize_2d dr))"

text \<open>The last statement of \<^verbatim>\<open>fit_nuisance\<close>: the ATE in the validation sample.\<close>

definition set_ate_val :: "drtester \<Rightarrow> real list option \<Rightarrow> (error + unit) \<times> drtester" where
  "set_ate_val st sampleweightval =
     (case dr_val st of
        None \<Rightarrow> (Inl AttributeError, st)
      | Some dr \<Rightarrow>
          (case np_average_axis0 dr sampleweightval of
             Inl e \<Rightarrow> (Inl e, st)
           | Inr a \<Rightarrow> (Inr (), st\<lparr>ate_val := Some a\<rparr>)))"

text \<open>The branch \<^verbatim>\<open>if self.fit_on_train\<close>.\<close>

definition fit_on_train_branch ::
  "'x env \<Rightarrow> drtester \<Rightarrow> 'x \<Rightarrow> int list \<Rightarrow> real list \<Rightarrow> 'x \<Rightarrow> int list \<Rightarrow> real list
     \<Rightarrow> real list option \<Rightarrow> int list \<Rightarrow> (error + unit) \<times> drtester" where
  "fit_on_train_branch E st Xv D yv Xt Dt yt sampleweighttrain ts =
     (case fit_nuisance_cv E st Xt Dt yt sampleweighttrain of
        Inl e \<Rightarrow> (Inl e, st)
      | Inr preds_train \<Rightarrow>
          (case dr_outcomes_2d E Dt yt preds_train ts of
             Inl e \<Rightarrow> (Inl e, st)
           | Inr drt \<Rightarrow>
               let st2 = st\<lparr>dr_train := Some drt\<rparr> in
               (case fit_nuisance_train E st2 Xt Dt yt Xv sampleweighttrain of
                  Inl e \<Rightarrow> (Inl e, st2)
                | Inr preds_val \<Rightarrow>
                    (case dr_outcomes_2d E D yv preds_val ts of
                       Inl e \<Rightarrow> (Inl e, st2)
                     | Inr drv \<Rightarrow> (Inr (), st2\<lparr>dr_val := Some drv\<rparr>)))))"

text \<open>The \<^verbatim>\<open>else\<close> branch: cross-fitting in the validation sample.\<close>

definition fit_on_val_branch ::
  "'x env \<Rightarrow> drtester \<Rightarrow> 'x \<Rightarrow> int list \<Rightarrow> real list \<Rightarrow> real list option \<Rightarrow> int list
     \<Rightarrow> (error + unit) \<times> drtester" where
  "fit_on_val_branch E st Xv D yv sampleweightval ts =
     (case fit_nuisance_cv E st Xv D yv sampleweightval of
        Inl e \<Rightarrow> (Inl e, st)
      | Inr preds_val \<Rightarrow>
          (case dr_outcomes_2d E D yv preds_val ts of
             Inl e \<Rightarrow> (Inl e, st)
           | Inr drv \<Rightarrow> (Inr (), st\<lparr>dr_val := Some drv\<rparr>)))"

definition fit_nuisance ::
  "'x env \<Rightarrow> drtester \<Rightarrow> 'x \<Rightarrow> int list \<Rightarrow> real list \<Rightarrow> 'x option \<Rightarrow> int list option
     \<Rightarrow> real list option \<Rightarrow> real list option \<Rightarrow> real list option
     \<Rightarrow> (error + unit) \<times> drtester" where
  "fit_nuisance E st Xv D yv Xtrain Dtrain ytrain sampleweightval sampleweighttrain =
     (let ts = np_sort (np_unique D);
          st1 = st\<lparr>Dval := Some D,
                   treatments := Some ts,
                   n_treat := Some (int (length ts) - 1),
                   fit_on_train := Some (Xtrain \<noteq> None \<and> Dtrain \<noteq> None \<and> ytrain \<noteq> None)\<rparr>;
          fitted =
            (case (Xtrain, Dtrain, ytrain) of
               (Some Xt, Some Dt, Some yt) \<Rightarrow>
                 fit_on_train_branch E st1 Xv D yv Xt Dt yt sampleweighttrain ts
             | _ \<Rightarrow> fit_on_val_branch E st1 Xv D yv sampleweightval ts)
      in case fst fitted of
           Inl e \<Rightarrow> (Inl e, snd fitted)
         | Inr _ \<Rightarrow> set_ate_val (snd fitted) sampleweightval)"

section \<open>get_cate_preds\<close>

text \<open>The list comprehension over \<^verbatim>\<open>self.treatments[1:]\<close>: the first failing query ends it.\<close>

fun effects :: "'x env \<Rightarrow> 'x \<Rightarrow> int \<Rightarrow> int list \<Rightarrow> error + ndarray list" where
  "effects E X base [] = Inr []"
| "effects E X base (t # ts) =
     (case cate_effect E X base t of
        Inl e \<Rightarrow> Inl e
      | Inr v \<Rightarrow> (case effects E X base ts of Inl e \<Rightarrow> Inl e | Inr vs \<Rightarrow> Inr (v # vs)))"

text \<open>
  One sample's predictions: \<^verbatim>\<open>np.stack(vals).T.squeeze()\<close>, then the standardisation.
\<close>

definition cate_preds :: "'x env \<Rightarrow> 'x \<Rightarrow> int list \<Rightarrow> error + ndarray" where
  "cate_preds E X ts =
     (case ts of
        [] \<Rightarrow> Inl IndexError
      | base # rest \<Rightarrow>
          (case effects E X base rest of
             Inl e \<Rightarrow> Inl e
           | Inr vals \<Rightarrow>
               (case np_stack vals of
                  Inl e \<Rightarrow> Inl e
                | Inr s \<Rightarrow> Inr (standardize_2d (np_squeeze (np_T s))))))"

definition get_cate_preds ::
  "'x env \<Rightarrow> drtester \<Rightarrow> 'x \<Rightarrow> 'x option \<Rightarrow> (error + unit) \<times> drtester" where
  "get_cate_preds E st Xv Xtrain =
     (case treatments st of
        None \<Rightarrow> (Inl AttributeError, st)
      | Some ts \<Rightarrow>
          (case cate_preds E Xv ts of
             Inl e \<Rightarrow> (Inl e, st)
           | Inr pv \<Rightarrow>
               let st1 = st\<lparr>cate_preds_val := Some pv\<rparr> in
               (case Xtrain of
                  None \<Rightarrow> (Inr (), st1)
                | Some Xt \<Rightarrow>
                    (case cate_preds E Xt ts of
                       Inl e \<Rightarrow> (Inl e, st1)
                     | Inr pt \<Rightarrow> (Inr (), st1\<lparr>cate_preds_train := Some pt\<rparr>)))))"

section \<open>Sample weights\<close>

text \<open>
  \<^verbatim>\<open>if w is None: w = np.ones(preds.shape[0])\<close>.
\<close>

definition weights_or_ones :: "real list option \<Rightarrow> ndarray \<Rightarrow> error + real list" where
  "weights_or_ones w a =
     (case w of
        Some ws \<Rightarrow> Inr ws
      | None \<Rightarrow> (case shape0 a of Inl e \<Rightarrow> Inl e | Inr n \<Rightarrow> Inr (replicate n 1)))"

text \<open>
  The conversion \<^verbatim>\<open>astype(int)\<close> of both weight vectors, then the two assertions.
\<close>

definition checked_weights :: "real list \<Rightarrow> real list \<Rightarrow> error + int list \<times> int list" where
  "checked_weights wv wt =
     (let sampleweightval = map astype_int wv;
          sampleweighttrain = map astype_int wt
      in if \<not> (\<forall>w \<in> set sampleweightval. 1 \<le> w)
           then Inl (AssertionError ''Sample weights must be integer and >= 1'')
         else if \<not> (\<forall>w \<in> set sampleweighttrain. 1 \<le> w)
           then Inl (AssertionError ''Sample weights must be integer and >= 1'')
         else Inr (sampleweightval, sampleweighttrain))"

text \<open>
  The block shared by \<^verbatim>\<open>evaluate_cal\<close>, \<^verbatim>\<open>evaluate_uplift\<close> and
  \<^verbatim>\<open>evaluate_all\<close>: the CATE predictions are computed when either of the two is not
  cached yet, and that needs both feature matrices.
\<close>

definition ensure_cate_preds ::
  "'x env \<Rightarrow> drtester \<Rightarrow> 'x option \<Rightarrow> 'x option \<Rightarrow> (error + unit) \<times> drtester" where
  "ensure_cate_preds E st Xval Xtrain =
     (if cate_preds_train st = None \<or> cate_preds_val st = None then
        (case (Xval, Xtrain) of
           (Some Xv, Some Xt) \<Rightarrow> get_cate_preds E st Xv (Some Xt)
         | _ \<Rightarrow>
           (Inl (Exception
              ''CATE predictions not yet calculated - must provide both Xval, Xtrain''), st))
      else (Inr (), st))"

text \<open>The two default weight vectors and the check, on the cached predictions.\<close>

definition prepared_weights ::
  "drtester \<Rightarrow> real list option \<Rightarrow> real list option \<Rightarrow> error + int list \<times> int list" where
  "prepared_weights st sampleweightval sampleweighttrain =
     (case (cate_preds_val st, cate_preds_train st) of
        (Some pv, Some pt) \<Rightarrow>
          (case weights_or_ones sampleweighttrain pt of
             Inl e \<Rightarrow> Inl e
           | Inr wt \<Rightarrow>
               (case weights_or_ones sampleweightval pv of
                  Inl e \<Rightarrow> Inl e
                | Inr wv \<Rightarrow> checked_weights wv wt))
      | _ \<Rightarrow> Inl AttributeError)"

section \<open>evaluate_cal\<close>

text \<open>\<^verbatim>\<open>np.linspace(0, 1, n_groups + 1)\<close>.\<close>

definition linspace01 :: "nat \<Rightarrow> real list" where
  "linspace01 n = map (\<lambda>i. real i / real n) [0..<Suc n]"

text \<open>
  The membership mask of bin \<open>i\<close>: half-open, except for the last bin, which is closed.
  The bin count is a natural number here; inside the loop it is at least one, so the
  source's \<^verbatim>\<open>i < n_groups - 1\<close> is \<open>i + 1 < n_groups\<close>.
\<close>

definition bin_ind :: "nat \<Rightarrow> real list \<Rightarrow> real list \<Rightarrow> nat \<Rightarrow> error + bool list" where
  "bin_ind n_groups cuts vals i =
     (if length cuts \<le> i + 1 then Inl IndexError
      else if i + 1 < n_groups
        then Inr (map (\<lambda>v. cuts ! i \<le> v \<and> v < cuts ! (i + 1)) vals)
        else Inr (map (\<lambda>v. cuts ! i \<le> v \<and> v \<le> cuts ! (i + 1)) vals))"

text \<open>\<^verbatim>\<open>xs[ind]\<close> with a boolean mask: the mask must have the length of \<open>xs\<close>.\<close>

definition mask_select :: "'a list \<Rightarrow> bool list \<Rightarrow> error + 'a list" where
  "mask_select xs ind =
     (if length ind \<noteq> length xs then Inl IndexError
      else Inr (map fst (filter snd (zip xs ind))))"

text \<open>\<^verbatim>\<open>a[ind, k]\<close>.\<close>

definition masked_column :: "ndarray \<Rightarrow> bool list \<Rightarrow> nat \<Rightarrow> error + real list" where
  "masked_column a ind k =
     (case column a k of Inl e \<Rightarrow> Inl e | Inr col \<Rightarrow> mask_select col ind)"

text \<open>\<^verbatim>\<open>np.average(values, weights=w)\<close> on vectors, with integer weights.\<close>

definition np_average :: "real list \<Rightarrow> int list \<Rightarrow> error + real" where
  "np_average vs ws =
     (if length vs \<noteq> length ws then Inl TypeError
      else if sum_list ws = 0 then Inl ZeroDivisionError
      else Inr ((\<Sum>(v, w) \<leftarrow> zip vs ws. v * real_of_int w) / real_of_int (sum_list ws)))"

text \<open>The five arrays of one arm, each of length \<open>n_groups\<close> and initialised to zero.\<close>

record cal_arrays =
  probs :: "real list"
  g_cate :: "real list"
  se_g_cate :: "npfloat list"
  gate :: "real list"
  se_gate :: "npfloat list"

definition zero_arrays :: "nat \<Rightarrow> cal_arrays" where
  "zero_arrays n =
     \<lparr>probs = replicate n 0, g_cate = replicate n 0, se_g_cate = replicate n (Fin 0),
      gate = replicate n 0, se_gate = replicate n (Fin 0)\<rparr>"

text \<open>What one pass through the loop body computes for a bin that has members.\<close>

record bin_stats =
  bin_prob :: real
  bin_gate :: real
  bin_se_gate :: npfloat
  bin_g_cate :: real
  bin_se_g_cate :: npfloat

definition store_bin :: "cal_arrays \<Rightarrow> nat \<Rightarrow> bin_stats \<Rightarrow> cal_arrays" where
  "store_bin A i s =
     \<lparr>probs = (probs A)[i := bin_prob s],
      g_cate = (g_cate A)[i := bin_g_cate s],
      se_g_cate = (se_g_cate A)[i := bin_se_g_cate s],
      gate = (gate A)[i := bin_gate s],
      se_gate = (se_gate A)[i := bin_se_gate s]\<rparr>"

text \<open>
  The statistics of a non-empty bin, from its mask: the share of the total validation
  weight, and the weighted means and standard errors of the DR outcomes and of the CATE
  predictions of its members.
\<close>

definition bin_statistics ::
  "'x env \<Rightarrow> drtester \<Rightarrow> ndarray \<Rightarrow> nat \<Rightarrow> int list \<Rightarrow> bool list \<Rightarrow> error + bin_stats" where
  "bin_statistics E st pv k sampleweightval ind =
     (case mask_select sampleweightval ind of
        Inl e \<Rightarrow> Inl e
      | Inr wi \<Rightarrow>
     (case dr_val st of
        None \<Rightarrow> Inl AttributeError
      | Some dr \<Rightarrow>
     (case masked_column dr ind k of
        Inl e \<Rightarrow> Inl e
      | Inr d \<Rightarrow>
     (case np_average d wi of
        Inl e \<Rightarrow> Inl e
      | Inr gate_i \<Rightarrow>
     (case weighted_se E d wi of
        Inl e \<Rightarrow> Inl e
      | Inr se_gate_i \<Rightarrow>
     (case masked_column pv ind k of
        Inl e \<Rightarrow> Inl e
      | Inr c \<Rightarrow>
     (case np_average c wi of
        Inl e \<Rightarrow> Inl e
      | Inr g_cate_i \<Rightarrow>
     (case weighted_se E c wi of
        Inl e \<Rightarrow> Inl e
      | Inr se_g_cate_i \<Rightarrow>
          Inr \<lparr>bin_prob = real_of_int (sum_list wi) / real_of_int (sum_list sampleweightval),
                bin_gate = gate_i, bin_se_gate = se_gate_i,
                bin_g_cate = g_cate_i, bin_se_g_cate = se_g_cate_i\<rparr>))))))))"

text \<open>
  The body of the loop over the bins: \<open>None\<close> is the \<^verbatim>\<open>continue\<close> for a bin without
  members.
\<close>

definition cal_bin ::
  "'x env \<Rightarrow> drtester \<Rightarrow> nat \<Rightarrow> int list \<Rightarrow> nat \<Rightarrow> real list \<Rightarrow> nat
     \<Rightarrow> error + bin_stats option" where
  "cal_bin E st k sampleweightval n_groups cuts i =
     (case cate_preds_val st of
        None \<Rightarrow> Inl AttributeError
      | Some pv \<Rightarrow>
     (case column pv k of
        Inl e \<Rightarrow> Inl e
      | Inr vals \<Rightarrow>
     (case bin_ind n_groups cuts vals i of
        Inl e \<Rightarrow> Inl e
      | Inr ind \<Rightarrow>
          if \<not> (\<exists>b \<in> set ind. b) then Inr None
          else (case bin_statistics E st pv k sampleweightval ind of
                  Inl e \<Rightarrow> Inl e
                | Inr s \<Rightarrow> Inr (Some s)))))"

text \<open>The loop \<^verbatim>\<open>for i in range(n_groups)\<close>.\<close>

fun cal_groups ::
  "(nat \<Rightarrow> error + bin_stats option) \<Rightarrow> nat list \<Rightarrow> cal_arrays \<Rightarrow> error + cal_arrays" where
  "cal_groups body [] A = Inr A"
| "cal_groups body (i # is) A =
     (case body i of
        Inl e \<Rightarrow> Inl e
      | Inr None \<Rightarrow> cal_groups body is A
      | Inr (Some s) \<Rightarrow> cal_groups body is (store_bin A i s))"

text \<open>The cut points of arm \<open>k\<close> and its five arrays after the loop over the bins.\<close>

definition arm_arrays ::
  "'x env \<Rightarrow> drtester \<Rightarrow> nat \<Rightarrow> int list \<Rightarrow> int list \<Rightarrow> nat \<Rightarrow> error + cal_arrays" where
  "arm_arrays E st n_groups sampleweightval sampleweighttrain k =
     (case cate_preds_train st of
        None \<Rightarrow> Inl AttributeError
      | Some pt \<Rightarrow>
     (case column pt k of
        Inl e \<Rightarrow> Inl e
      | Inr train_vals \<Rightarrow>
     (case weighted_stat E train_vals (linspace01 n_groups) sampleweighttrain of
        Inl e \<Rightarrow> Inl e
      | Inr cuts \<Rightarrow>
          cal_groups (cal_bin E st k sampleweightval n_groups cuts) [0..<n_groups]
            (zero_arrays n_groups))))"

text \<open>The two calibration errors and the score, from the arrays.\<close>

definition cal_score_g :: "cal_arrays \<Rightarrow> npfloat" where
  "cal_score_g A =
     Fin (\<Sum>((g, c), p) \<leftarrow> zip (zip (gate A) (g_cate A)) (probs A). \<bar>g - c\<bar> * p)"

definition cal_score_o :: "cal_arrays \<Rightarrow> npfloat \<Rightarrow> npfloat" where
  "cal_score_o A ate =
     np_sum (map (\<lambda>(g, p). np_mul (np_abs (np_sub (Fin g) ate)) (Fin p))
               (zip (gate A) (probs A)))"

definition cal_arm ::
  "'x env \<Rightarrow> drtester \<Rightarrow> nat \<Rightarrow> int list \<Rightarrow> int list \<Rightarrow> nat \<Rightarrow> error + npfloat \<times> cal_df" where
  "cal_arm E st n_groups sampleweightval sampleweighttrain k =
     (case arm_arrays E st n_groups sampleweightval sampleweighttrain k of
        Inl e \<Rightarrow> Inl e
      | Inr A \<Rightarrow>
     (case ate_val st of
        None \<Rightarrow> Inl AttributeError
      | Some ate \<Rightarrow>
          if length ate \<le> k then Inl IndexError
          else Inr (np_sub (Fin 1) (np_true_divide (cal_score_g A) (cal_score_o A (ate ! k))),
                    Cal_df [0..<n_groups] (gate A) (se_gate A) (g_cate A) (se_g_cate A))))"

text \<open>
  The loop \<^verbatim>\<open>for k in range(self.n_treat)\<close>, filling \<^verbatim>\<open>cal_r_squared\<close> and
  \<^verbatim>\<open>plot_data_dict\<close>.
\<close>

fun cal_arms ::
  "(nat \<Rightarrow> error + npfloat \<times> cal_df) \<Rightarrow> int list option \<Rightarrow> nat list
     \<Rightarrow> npfloat list \<times> (int \<rightharpoonup> cal_df) \<Rightarrow> error + npfloat list \<times> (int \<rightharpoonup> cal_df)" where
  "cal_arms arm tso [] acc = Inr acc"
| "cal_arms arm tso (k # ks) acc =
     (case arm k of
        Inl e \<Rightarrow> Inl e
      | Inr (r2, df) \<Rightarrow>
          (case tso of
             None \<Rightarrow> Inl AttributeError
           | Some ts \<Rightarrow>
               if length ts \<le> k + 1 then Inl IndexError
               else cal_arms arm tso ks ((fst acc)[k := r2], (snd acc)(ts ! (k + 1) \<mapsto> df))))"

text \<open>
  Everything after the weights are converted and checked, on the two integer weight
  vectors: the loop over the arms and the result object. It reads the instance without
  changing it.
\<close>

definition cal_with_weights ::
  "'x env \<Rightarrow> drtester \<Rightarrow> nat \<Rightarrow> int list \<Rightarrow> int list \<Rightarrow> error + cal_results" where
  "cal_with_weights E st n_groups sampleweightval sampleweighttrain =
     (case n_treat st of
        None \<Rightarrow> Inl AttributeError
      | Some m \<Rightarrow>
          if m < 0 then Inl ValueError
          else
     (case cal_arms (cal_arm E st n_groups sampleweightval sampleweighttrain) (treatments st)
             [0..<nat m] (replicate (nat m) (Fin 0), Map.empty) of
        Inl e \<Rightarrow> Inl e
      | Inr (r2s, d) \<Rightarrow>
          (case treatments st of
             None \<Rightarrow> Inl AttributeError
           | Some ts \<Rightarrow> Inr (CalibrationEvaluationResults r2s d ts))))"

text \<open>The weights are set up, then the computation runs on the converted weights.\<close>

definition cal_compute ::
  "'x env \<Rightarrow> drtester \<Rightarrow> nat \<Rightarrow> real list option \<Rightarrow> real list option \<Rightarrow> error + cal_results" where
  "cal_compute E st n_groups sampleweightval sampleweighttrain =
     (case prepared_weights st sampleweightval sampleweighttrain of
        Inl e \<Rightarrow> Inl e
      | Inr (wv, wt) \<Rightarrow> cal_with_weights E st n_groups wv wt)"

definition evaluate_cal ::
  "'x env \<Rightarrow> drtester \<Rightarrow> 'x option \<Rightarrow> 'x option \<Rightarrow> nat \<Rightarrow> real list option \<Rightarrow> real list option
     \<Rightarrow> (error + cal_results) \<times> drtester" where
  "evaluate_cal E st Xval Xtrain n_groups sampleweightval sampleweighttrain =
     (if dr_train st = None then
        (Inl (Exception
           ''Must fit nuisance models on training sample data to use calibration test''), st)
      else
        (case ensure_cate_preds E st Xval Xtrain of
           (Inl e, st1) \<Rightarrow> (Inl e, st1)
         | (Inr _, st1) \<Rightarrow>
             (case cal_compute E st1 n_groups sampleweightval sampleweighttrain of
                Inl e \<Rightarrow> (Inl e, st1)
              | Inr r \<Rightarrow> (Inr r, st1\<lparr>cal_res := Some r\<rparr>))))"

section \<open>evaluate_blp\<close>

text \<open>A loop that appends one result per arm and stops at the first error.\<close>

fun collect :: "(nat \<Rightarrow> error + 'a) \<Rightarrow> nat list \<Rightarrow> error + 'a list" where
  "collect f [] = Inr []"
| "collect f (k # ks) =
     (case f k of
        Inl e \<Rightarrow> Inl e
      | Inr v \<Rightarrow> (case collect f ks of Inl e \<Rightarrow> Inl e | Inr vs \<Rightarrow> Inr (v # vs)))"

text \<open>
  The block of \<^verbatim>\<open>evaluate_blp\<close> that computes the CATE predictions when the validation
  ones are not cached: only \<^verbatim>\<open>Xval\<close> is needed.
\<close>

definition ensure_cate_preds_val ::
  "'x env \<Rightarrow> drtester \<Rightarrow> 'x option \<Rightarrow> 'x option \<Rightarrow> (error + unit) \<times> drtester" where
  "ensure_cate_preds_val E st Xval Xtrain =
     (if cate_preds_val st = None then
        (case Xval of
           None \<Rightarrow>
             (Inl (Exception ''CATE predictions not yet calculated - must provide Xval''), st)
         | Some Xv \<Rightarrow> get_cate_preds E st Xv Xtrain)
      else (Inr (), st))"

text \<open>The regression of one arm: DR outcomes on the CATE predictions and a constant.\<close>

definition blp_arm :: "'x env \<Rightarrow> drtester \<Rightarrow> real list \<Rightarrow> nat \<Rightarrow> error + real \<times> real \<times> real" where
  "blp_arm E st w k =
     (case dr_val st of
        None \<Rightarrow> Inl AttributeError
      | Some dr \<Rightarrow>
     (case column dr k of
        Inl e \<Rightarrow> Inl e
      | Inr y \<Rightarrow>
     (case cate_preds_val st of
        None \<Rightarrow> Inl AttributeError
      | Some pv \<Rightarrow>
     (case column pv k of
        Inl e \<Rightarrow> Inl e
      | Inr x \<Rightarrow> wls_hc1 E y x w))))"

definition blp_compute :: "'x env \<Rightarrow> drtester \<Rightarrow> real list option \<Rightarrow> error + blp_results" where
  "blp_compute E st sampleweightval =
     (case cate_preds_val st of
        None \<Rightarrow> Inl AttributeError
      | Some pv \<Rightarrow>
     (case weights_or_ones sampleweightval pv of
        Inl e \<Rightarrow> Inl e
      | Inr w \<Rightarrow>
     (case n_treat st of
        None \<Rightarrow> Inl AttributeError
      | Some m \<Rightarrow>
     (case collect (blp_arm E st w) [0..<nat m] of
        Inl e \<Rightarrow> Inl e
      | Inr regs \<Rightarrow>
     (case treatments st of
        None \<Rightarrow> Inl AttributeError
      | Some ts \<Rightarrow>
          Inr (BLPEvaluationResults (map fst regs) (map (fst \<circ> snd) regs)
                 (map (snd \<circ> snd) regs) ts))))))"

definition evaluate_blp ::
  "'x env \<Rightarrow> drtester \<Rightarrow> 'x option \<Rightarrow> 'x option \<Rightarrow> real list option
     \<Rightarrow> (error + blp_results) \<times> drtester" where
  "evaluate_blp E st Xval Xtrain sampleweightval =
     (if dr_val st = None then
        (Inl (Exception ''Must fit nuisances before evaluating''), st)
      else
        (case ensure_cate_preds_val E st Xval Xtrain of
           (Inl e, st1) \<Rightarrow> (Inl e, st1)
         | (Inr _, st1) \<Rightarrow>
             (case blp_compute E st1 sampleweightval of
                Inl e \<Rightarrow> (Inl e, st1)
              | Inr r \<Rightarrow> (Inr r, st1\<lparr>blp_res := Some r\<rparr>))))"

section \<open>evaluate_uplift\<close>

text \<open>
  One pass of the loop over the arms: the call of \<^verbatim>\<open>calc_uplift\<close> on the three columns,
  then the key \<^verbatim>\<open>self.treatments[k + 1]\<close> of the curve.
\<close>

definition uplift_arm ::
  "'x env \<Rightarrow> drtester \<Rightarrow> real list \<Rightarrow> string \<Rightarrow> int \<Rightarrow> int list \<Rightarrow> int list \<Rightarrow> nat
     \<Rightarrow> error + (real \<times> real) \<times> (int \<times> curve_df)" where
  "uplift_arm E st percentiles metric n_bootstrap sampleweightval sampleweighttrain k =
     (case cate_preds_train st of
        None \<Rightarrow> Inl AttributeError
      | Some pt \<Rightarrow>
     (case column pt k of
        Inl e \<Rightarrow> Inl e
      | Inr ct \<Rightarrow>
     (case cate_preds_val st of
        None \<Rightarrow> Inl AttributeError
      | Some pv \<Rightarrow>
     (case column pv k of
        Inl e \<Rightarrow> Inl e
      | Inr cv \<Rightarrow>
     (case dr_val st of
        None \<Rightarrow> Inl AttributeError
      | Some dr \<Rightarrow>
     (case column dr k of
        Inl e \<Rightarrow> Inl e
      | Inr d \<Rightarrow>
     (case calc_uplift E ct cv d percentiles metric n_bootstrap
             sampleweighttrain sampleweightval of
        Inl e \<Rightarrow> Inl e
      | Inr (coeff, err, curve) \<Rightarrow>
     (case treatments st of
        None \<Rightarrow> Inl AttributeError
      | Some ts \<Rightarrow>
          if length ts \<le> k + 1 then Inl IndexError
          else Inr ((coeff, err), (ts ! (k + 1), curve))))))))))"

text \<open>
  The p-value of one arm, \<^verbatim>\<open>2*st.norm.sf(abs(q / e))\<close>. Coefficient and standard error
  are numpy scalars, so a zero standard error gives an infinite or undefined quotient, not
  an exception; the survival function is 0 at plus infinity and 1 at minus infinity.
\<close>

definition np_norm_sf :: "'x env \<Rightarrow> npfloat \<Rightarrow> npfloat" where
  "np_norm_sf E z =
     (case z of Fin a \<Rightarrow> Fin (norm_sf E a) | PInf \<Rightarrow> Fin 0 | NInf \<Rightarrow> Fin 1 | NaN \<Rightarrow> NaN)"

definition uplift_pval :: "'x env \<Rightarrow> real \<Rightarrow> real \<Rightarrow> npfloat" where
  "uplift_pval E q e = np_mul (Fin 2) (np_norm_sf E (np_abs (np_true_divide (Fin q) (Fin e))))"

text \<open>The dictionary of curves, filled in the order of the arms.\<close>

definition curve_dict :: "(int \<times> curve_df) list \<Rightarrow> (int \<rightharpoonup> curve_df)" where
  "curve_dict kvs = foldl (\<lambda>d kv. d(fst kv \<mapsto> snd kv)) Map.empty kvs"

text \<open>
  Everything after the weights are converted and checked, on the two integer weight
  vectors: the loop over the arms, the p-values and the result object.
\<close>

definition uplift_with_weights ::
  "'x env \<Rightarrow> drtester \<Rightarrow> real list \<Rightarrow> string \<Rightarrow> int \<Rightarrow> int list \<Rightarrow> int list
     \<Rightarrow> error + uplift_results" where
  "uplift_with_weights E st percentiles metric n_bootstrap sampleweightval sampleweighttrain =
     (case n_treat st of
        None \<Rightarrow> Inl AttributeError
      | Some m \<Rightarrow>
     (case collect (uplift_arm E st percentiles metric n_bootstrap
                      sampleweightval sampleweighttrain) [0..<nat m] of
        Inl e \<Rightarrow> Inl e
      | Inr arms \<Rightarrow>
     (case treatments st of
        None \<Rightarrow> Inl AttributeError
      | Some ts \<Rightarrow>
          Inr (UpliftEvaluationResults
                 (map (fst \<circ> fst) arms)
                 (map (snd \<circ> fst) arms)
                 (map (\<lambda>a. uplift_pval E (fst (fst a)) (snd (fst a))) arms)
                 ts
                 (curve_dict (map snd arms))))))"

text \<open>The weights are set up, then the computation runs on the converted weights.\<close>

definition uplift_compute ::
  "'x env \<Rightarrow> drtester \<Rightarrow> real list \<Rightarrow> string \<Rightarrow> int \<Rightarrow> real list option \<Rightarrow> real list option
     \<Rightarrow> error + uplift_results" where
  "uplift_compute E st percentiles metric n_bootstrap sampleweightval sampleweighttrain =
     (case prepared_weights st sampleweightval sampleweighttrain of
        Inl e \<Rightarrow> Inl e
      | Inr (wv, wt) \<Rightarrow>
          uplift_with_weights E st percentiles metric n_bootstrap wv wt)"

definition evaluate_uplift ::
  "'x env \<Rightarrow> drtester \<Rightarrow> 'x option \<Rightarrow> 'x option \<Rightarrow> real list \<Rightarrow> string \<Rightarrow> int
     \<Rightarrow> real list option \<Rightarrow> real list option \<Rightarrow> (error + uplift_results) \<times> drtester" where
  "evaluate_uplift E st Xval Xtrain percentiles metric n_bootstrap
       sampleweightval sampleweighttrain =
     (if dr_val st = None then
        (Inl (Exception ''Must fit nuisances before evaluating''), st)
      else
        (case ensure_cate_preds E st Xval Xtrain of
           (Inl e, st1) \<Rightarrow> (Inl e, st1)
         | (Inr _, st1) \<Rightarrow>
             (case uplift_compute E st1 percentiles metric n_bootstrap
                     sampleweightval sampleweighttrain of
                Inl e \<Rightarrow> (Inl e, st1)
              | Inr r \<Rightarrow> (Inr r, st1\<lparr>uplift_res := Some r\<rparr>))))"

section \<open>evaluate_all\<close>

text \<open>The default grid \<^verbatim>\<open>np.linspace(5, 95, 50)\<close> of \<^verbatim>\<open>evaluate_uplift\<close>.\<close>

definition default_percentiles :: "real list" where
  "default_percentiles = map (\<lambda>i. 5 + real i * (90 / 49)) [0..<50]"



section \<open>Helpers defined by the specification\<close>

text \<open>
  Modelled from the spec: \<^verbatim>\<open>calculate_dr_outcomes\<close> of \<^verbatim>\<open>econml/validate/utils.py\<close> is
  not among the sources. The specification (section 4.2) gives it as: for each unit and
  each non-control arm \<open>t\<close>,
  \<^verbatim>\<open>dr_t = (reg_preds[:,t] - reg_preds[:,0]) + 1{D=t}/prop_preds[:,t]*(y - reg_preds[:,t])
         - 1{D=0}/prop_preds[:,0]*(y - reg_preds[:,0])\<close>,
  an \<open>n \<times> n_treat\<close> matrix, two-dimensional also for a single arm, with no clipping of
  the propensities. Column \<open>t\<close> of the predictions belongs to \<^verbatim>\<open>treatments[t]\<close>, and
  control is \<^verbatim>\<open>treatments[0]\<close>. Predictions of another shape than \<open>n \<times> (n_treat + 1)\<close> are
  a ValueError here, and a division by a zero propensity a ZeroDivisionError, since its
  result is not a finite value.
\<close>

definition dr_entry ::
  "int list \<Rightarrow> real list \<Rightarrow> ndarray \<Rightarrow> ndarray \<Rightarrow> int list \<Rightarrow> nat \<Rightarrow> nat \<Rightarrow> real" where
  "dr_entry D y reg prop ts i t =
     (entry reg [i, t] - entry reg [i, 0])
     + (if D ! i = ts ! t then 1 else 0) / entry prop [i, t] * (y ! i - entry reg [i, t])
     - (if D ! i = ts ! 0 then 1 else 0) / entry prop [i, 0] * (y ! i - entry reg [i, 0])"

definition calculate_dr_outcomes_spec ::
  "int list \<Rightarrow> real list \<Rightarrow> ndarray \<Rightarrow> ndarray \<Rightarrow> int list \<Rightarrow> error + ndarray" where
  "calculate_dr_outcomes_spec D y reg prop ts =
     (let n = length D in
      if ts = [] \<or> length y \<noteq> n \<or> shape reg \<noteq> [n, length ts] \<or> shape prop \<noteq> [n, length ts]
        then Inl ValueError
      else if \<exists>i \<in> set [0..<n]. \<exists>t \<in> set [0..<length ts]. entry prop [i, t] = 0
        then Inl ZeroDivisionError
      else Inr \<lparr>shape = [n, length ts - 1],
                entry = (\<lambda>idx. case idx of
                                  [i, j] \<Rightarrow> dr_entry D y reg prop ts i (j + 1)
                                | _ \<Rightarrow> 0)\<rparr>)"

text \<open>
  Modelled from the spec: \<^verbatim>\<open>weighted_stat\<close> of \<^verbatim>\<open>econml/validate/weighted_utils.py\<close> is
  not among the sources. In its quantile mode the specification (section 4.5, step 1)
  gives it as the quantile of the weight-expanded distribution: each value repeated as
  often as its weight says. The quantile at level \<open>q\<close> of \<open>n\<close> sorted values is taken at
  position \<open>(n - 1) * q\<close>, interpolating linearly between the two neighbouring values.
\<close>

definition expand :: "real list \<Rightarrow> int list \<Rightarrow> real list" where
  "expand vs ws = concat (map (\<lambda>(v, w). replicate (nat w) v) (zip vs ws))"

definition quantile_sorted :: "real list \<Rightarrow> real \<Rightarrow> real" where
  "quantile_sorted xs q =
     (let h = real (length xs - 1) * q;
          lo = nat \<lfloor>h\<rfloor>;
          hi = nat \<lceil>h\<rceil>
      in xs ! lo + (h - real lo) * (xs ! hi - xs ! lo))"

definition weighted_quantile :: "real list \<Rightarrow> real list \<Rightarrow> int list \<Rightarrow> error + real list" where
  "weighted_quantile vs qs ws =
     (if length vs \<noteq> length ws \<or> expand vs ws = [] \<or> (\<exists>q \<in> set qs. q < 0 \<or> 1 < q)
        then Inl ValueError
      else Inr (map (quantile_sorted (sort (expand vs ws))) qs))"

section \<open>A test bench\<close>

text \<open>
  An environment to run the validator on concrete inputs, with one feature per unit.
  The two helpers above are the ones the specification defines. The external models are
  fixed: both nuisance fitters predict outcome 0 and propensity 1/2 for every unit and
  arm, and the CATE model predicts \<open>(T1 - T0) * x\<close>. The remaining helpers, whose formulas
  neither the sources nor the specification give, return constants.
\<close>

definition test_nuisance :: "drtester \<Rightarrow> real list \<Rightarrow> error + ndarray \<times> ndarray" where
  "test_nuisance st X =
     (case treatments st of
        None \<Rightarrow> Inl AttributeError
      | Some ts \<Rightarrow>
          Inr (of_rows (length ts) (map (\<lambda>_. replicate (length ts) 0) X),
               of_rows (length ts) (map (\<lambda>_. replicate (length ts) (1 / 2)) X)))"

definition test_env :: "real list env" where
  "test_env =
     \<lparr>fit_nuisance_cv = (\<lambda>st X D y w. test_nuisance st X),
      fit_nuisance_train = (\<lambda>st Xt Dt yt Xv w. test_nuisance st Xv),
      calculate_dr_outcomes = calculate_dr_outcomes_spec,
      cate_effect = (\<lambda>X t0 t1. Inr (of_vector (map (\<lambda>x. real_of_int (t1 - t0) * x) X))),
      weighted_stat = weighted_quantile,
      weighted_se = (\<lambda>vs ws. Inr (Fin 0)),
      wls_hc1 = (\<lambda>y x w. Inr (1, 1, 1 / 2)),
      calc_uplift = (\<lambda>ct cv d ps metric nb wt wv. Inr (1, 1 / 2, [])),
      norm_sf = (\<lambda>z. 1 / (2 + 2 * \<bar>z\<bar>))\<rparr>"

text \<open>Four units, two in each arm; the same sample serves for training and validation.\<close>

definition test_X :: "real list" where
  "test_X = [1, 2, 3, 4]"

definition test_D :: "int list" where
  "test_D = [0, 1, 0, 1]"

definition test_y :: "real list" where
  "test_y = [1, 3, 1, 5]"

text \<open>The instance after \<^verbatim>\<open>fit_nuisance\<close> with training data and \<^verbatim>\<open>get_cate_preds\<close>.\<close>

definition test_fitted :: drtester where
  "test_fitted =
     snd (get_cate_preds test_env
            (snd (fit_nuisance test_env init test_X test_D test_y
                    (Some test_X) (Some test_D) (Some test_y) None None))
            test_X (Some test_X))"

text \<open>The instance after \<^verbatim>\<open>fit_nuisance\<close> without training data (cross-fitting).\<close>

definition test_crossfit :: drtester where
  "test_crossfit =
     snd (fit_nuisance test_env init test_X test_D test_y None None None None None)"

text \<open>The same with three arms, one unit in each.\<close>

definition test_crossfit3 :: drtester where
  "test_crossfit3 =
     snd (fit_nuisance test_env init [1, 2, 3] [0, 1, 2] [1, 2, 3] None None None None None)"


section \<open>Notions used to state the properties\<close>


text \<open>
  Unit \<open>j\<close> of the validation sample is assigned to bin \<open>i\<close>: the mask the loop body
  computes for bin \<open>i\<close> is true at \<open>j\<close>.
\<close>

definition in_bin :: "nat \<Rightarrow> real list \<Rightarrow> real list \<Rightarrow> nat \<Rightarrow> nat \<Rightarrow> bool" where
  "in_bin n_groups cuts vals i j =
     (case bin_ind n_groups cuts vals i of
        Inl e \<Rightarrow> False
      | Inr ind \<Rightarrow> j < length ind \<and> ind ! j)"











section \<open>Properties: the treatment arms\<close>

lemma set_ate_val_frame:
  "treatments (snd (set_ate_val st w)) = treatments st"
  "n_treat (snd (set_ate_val st w)) = n_treat st"
  "dr_val (snd (set_ate_val st w)) = dr_val st"
  "dr_train (snd (set_ate_val st w)) = dr_train st"
  by (simp_all add: set_ate_val_def split: option.splits sum.splits)

lemma fit_on_train_branch_frame:
  "treatments (snd (fit_on_train_branch E st Xv D yv Xt Dt yt w ts)) = treatments st"
  "n_treat (snd (fit_on_train_branch E st Xv D yv Xt Dt yt w ts)) = n_treat st"
  by (simp_all add: fit_on_train_branch_def Let_def split: sum.splits)

lemma fit_on_val_branch_frame:
  "treatments (snd (fit_on_val_branch E st Xv D yv w ts)) = treatments st"
  "n_treat (snd (fit_on_val_branch E st Xv D yv w ts)) = n_treat st"
  "dr_train (snd (fit_on_val_branch E st Xv D yv w ts)) = dr_train st"
  by (simp_all add: fit_on_val_branch_def Let_def split: sum.splits)

lemma np_sort_unique: "np_sort (np_unique D) = sorted_list_of_set (set D)"
  by (simp add: np_sort_def np_unique_def sorted_list_of_set_sort_remdups sorted_sort_id)

lemma fit_nuisance_fields:
  "treatments (snd (fit_nuisance E st Xv D yv Xt Dt yt wv wt)) = Some (np_sort (np_unique D))"
  "n_treat (snd (fit_nuisance E st Xv D yv Xt Dt yt wv wt)) =
     Some (int (length (np_sort (np_unique D))) - 1)"
  by (simp_all add: fit_nuisance_def Let_def set_ate_val_frame fit_on_train_branch_frame
        fit_on_val_branch_frame split: sum.splits option.splits prod.splits)

text \<open>
  Claim C6. Whatever else \<^verbatim>\<open>fit_nuisance\<close> does, and whether or not it fails later, it
  leaves \<^verbatim>\<open>treatments\<close> as the sorted list of the distinct values of \<^verbatim>\<open>Dval\<close> and
  \<^verbatim>\<open>n_treat\<close> as their number minus one; for a non-empty \<^verbatim>\<open>Dval\<close> the control arm
  \<^verbatim>\<open>treatments[0]\<close> is the least value in it.
\<close>

theorem fit_nuisance_treatments:
  "treatments (snd (fit_nuisance E st Xv D yv Xt Dt yt wv wt)) = Some (sorted_list_of_set (set D))
   \<and> n_treat (snd (fit_nuisance E st Xv D yv Xt Dt yt wv wt)) = Some (int (card (set D)) - 1)
   \<and> (D \<noteq> [] \<longrightarrow>
        (\<exists>ts. treatments (snd (fit_nuisance E st Xv D yv Xt Dt yt wv wt)) = Some ts
              \<and> hd ts = Min (set D)))"
proof -
  have "D \<noteq> [] \<Longrightarrow> hd (sorted_list_of_set (set D)) = Min (set D)"
    by (metis List.finite_set set_empty sorted_list_of_set_nonempty list.sel(1))
  then show ?thesis
    by (simp add: fit_nuisance_fields np_sort_unique)
qed

theorem fit_nuisance_treatments_witness:
  "treatments (snd (fit_nuisance test_env init test_X test_D test_y None None None None None))
     = Some [0, 1]
   \<and> n_treat (snd (fit_nuisance test_env init test_X test_D test_y None None None None None))
     = Some 1
   \<and> test_D \<noteq> []
   \<and> Min (set test_D) = 0"
proof -
  have s: "sorted_list_of_set (set test_D) = [0, 1]"
    unfolding sorted_list_of_set_sort_remdups test_D_def by simp
  have "card (set test_D) = length (sorted_list_of_set (set test_D))"
    by simp
  then have c: "card (set test_D) = 2"
    by (simp only: s) simp
  have n: "test_D \<noteq> []"
    by (simp add: test_D_def)
  show ?thesis
    using fit_nuisance_treatments [of test_env init test_X test_D test_y None None None None None]
    by (auto simp: s c n)
qed

section \<open>Properties: calls before the nuisance fit\<close>


lemma fit_nuisance_no_train:
  "\<not> (Xt \<noteq> None \<and> Dt \<noteq> None \<and> yt \<noteq> None) \<Longrightarrow>
   dr_train (snd (fit_nuisance E st Xv D yv Xt Dt yt wv wt)) = dr_train st"
  by (auto simp add: fit_nuisance_def Let_def set_ate_val_frame fit_on_val_branch_frame
        split: sum.splits option.splits prod.splits)

text \<open>
  Claim C5. On an instance without training-sample DR outcomes \<^verbatim>\<open>evaluate_cal\<close> raises
  its exception at once and leaves the instance as it was; so do \<^verbatim>\<open>evaluate_blp\<close> and
  \<^verbatim>\<open>evaluate_uplift\<close> on an instance without validation-sample DR outcomes. A fresh
  instance has neither, and \<^verbatim>\<open>fit_nuisance\<close> on a fresh instance without all three of
  \<^verbatim>\<open>Xtrain\<close>, \<^verbatim>\<open>Dtrain\<close>, \<^verbatim>\<open>ytrain\<close> leaves the training-sample DR outcomes unset.
\<close>

theorem missing_fit_raises:
  "(dr_train st = None \<longrightarrow>
      evaluate_cal E st Xval Xtrain n sv stt =
        (Inl (Exception
           ''Must fit nuisance models on training sample data to use calibration test''), st))
   \<and> (dr_val st = None \<longrightarrow>
      evaluate_blp E st Xval Xtrain sv = (Inl (Exception ''Must fit nuisances before evaluating''), st)
      \<and> evaluate_uplift E st Xval Xtrain ps metric nb sv stt =
          (Inl (Exception ''Must fit nuisances before evaluating''), st))
   \<and> dr_val init = None
   \<and> (\<not> (Xt \<noteq> None \<and> Dt \<noteq> None \<and> yt \<noteq> None) \<longrightarrow>
        dr_train (snd (fit_nuisance E init Xv D yv Xt Dt yt wv wt)) = None)"
  by (simp add: evaluate_cal_def evaluate_blp_def evaluate_uplift_def fit_nuisance_no_train)
     (simp add: init_def)

theorem missing_fit_raises_witness:
  "evaluate_cal test_env
     (snd (fit_nuisance test_env init test_X test_D test_y None None None None None))
     (Some test_X) (Some test_X) 4 None None =
     (Inl (Exception
        ''Must fit nuisance models on training sample data to use calibration test''),
      snd (fit_nuisance test_env init test_X test_D test_y None None None None None))
   \<and> evaluate_blp test_env init (Some test_X) (Some test_X) None =
       (Inl (Exception ''Must fit nuisances before evaluating''), init)
   \<and> evaluate_uplift test_env init (Some test_X) (Some test_X) default_percentiles ''qini'' 1000
       None None =
       (Inl (Exception ''Must fit nuisances before evaluating''), init)"
proof -
  let ?st = "snd (fit_nuisance test_env init test_X test_D test_y None None None None None)"
  have a: "dr_train ?st = None"
    using missing_fit_raises [of init test_env None None 0 None None default_percentiles "''qini''" 0
        None None None test_X test_D test_y None None]
    by simp
  have b: "dr_val init = None"
    by (simp add: init_def)
  show ?thesis
    using missing_fit_raises [of ?st test_env "Some test_X" "Some test_X" 4 None None]
      missing_fit_raises [of init test_env "Some test_X" "Some test_X" 0 None None
        default_percentiles "''qini''" 1000]
      a b
    by simp
qed

section \<open>Properties: the shape of the prediction matrices\<close>

lemma test_env_sel:
  "fit_nuisance_cv test_env = (\<lambda>st X D y w. test_nuisance st X)"
  "fit_nuisance_train test_env = (\<lambda>st Xt Dt yt Xv w. test_nuisance st Xv)"
  "calculate_dr_outcomes test_env = calculate_dr_outcomes_spec"
  "cate_effect test_env = (\<lambda>X t0 t1. Inr (of_vector (map (\<lambda>x. real_of_int (t1 - t0) * x) X)))"
  "weighted_stat test_env = weighted_quantile"
  "weighted_se test_env = (\<lambda>vs ws. Inr (Fin 0))"
  "wls_hc1 test_env = (\<lambda>y x w. Inr (1, 1, 1 / 2))"
  "calc_uplift test_env = (\<lambda>ct cv d ps metric nb wt wv. Inr (1, 1 / 2, []))"
  "norm_sf test_env = (\<lambda>z. 1 / (2 + 2 * \<bar>z\<bar>))"
  by (simp_all add: test_env_def)

lemma test_crossfit_arms:
  "treatments test_crossfit = Some [0, 1]" "n_treat test_crossfit = Some 1"
proof -
  have s: "np_sort (np_unique test_D) = [0, 1]"
    by (simp add: np_sort_def np_unique_def test_D_def)
  show "treatments test_crossfit = Some [0, 1]" "n_treat test_crossfit = Some 1"
    by (simp_all add: test_crossfit_def fit_nuisance_fields s)
qed

lemma test_crossfit3_arms:
  "treatments test_crossfit3 = Some [0, 1, 2]" "n_treat test_crossfit3 = Some 2"
proof -
  have s: "np_sort (np_unique [0, 1, 2]) = [0, 1, 2]"
    by (simp add: np_sort_def np_unique_def)
  show "treatments test_crossfit3 = Some [0, 1, 2]" "n_treat test_crossfit3 = Some 2"
    by (simp_all add: test_crossfit3_def fit_nuisance_fields s)
qed

text \<open>
  Where the standardisation works: when every query of the CATE model returns a vector of
  the sample's length \<open>n\<close>, possibly with trailing axes of length one, and \<open>n\<close> is not 1,
  the predictions are an \<open>n \<times> n_treat\<close> matrix.
\<close>

lemma effects_shapes:
  assumes "\<And>t. t \<in> set rest \<Longrightarrow> \<exists>v. cate_effect E X base t = Inr v \<and> shape v = s"
  shows "\<exists>vals. effects E X base rest = Inr vals \<and> length vals = length rest
           \<and> (\<forall>v \<in> set vals. shape v = s)"
  using assms
proof (induction rest)
  case Nil
  then show ?case by simp
next
  case (Cons t rest)
  from Cons.prems obtain v where v: "cate_effect E X base t = Inr v" "shape v = s"
    by auto
  from Cons obtain vals where "effects E X base rest = Inr vals" "length vals = length rest"
    "\<forall>v \<in> set vals. shape v = s"
    by auto
  with v show ?case by simp
qed

lemma cate_preds_shape:
  assumes eff: "\<And>t. t \<in> set rest \<Longrightarrow>
                  \<exists>v. cate_effect E X base t = Inr v \<and> shape v = n # replicate j 1"
    and n: "n \<noteq> 1" and rest: "rest \<noteq> []"
  shows "\<exists>a. cate_preds E X (base # rest) = Inr a \<and> shape a = [n, length rest]"
proof -
  from effects_shapes [OF eff] obtain vals where
    vals: "effects E X base rest = Inr vals" "length vals = length rest"
      "\<forall>v \<in> set vals. shape v = n # replicate j 1"
    by blast
  from vals rest have ne: "vals \<noteq> []" by auto
  then have hd: "shape (hd vals) = n # replicate j 1"
    using vals(3) by simp
  obtain s where s: "np_stack vals = Inr s" "shape s = length rest # n # replicate j 1"
    using ne vals hd by (simp add: np_stack_def)
  have sq: "shape (np_squeeze (np_T s)) = (if length rest = 1 then [n] else [n, length rest])"
    using n s(2) by (simp add: np_squeeze_def np_T_def)
  have "shape (standardize_2d (np_squeeze (np_T s))) = [n, length rest]"
    using sq by (simp add: standardize_2d_def ndim_def newaxis_last_def)
  then show ?thesis
    using vals(1) s(1) by (simp add: cate_preds_def)
qed

text \<open>
  The DR outcomes, with the helper as the specification defines it: an \<open>n \<times> n_treat\<close>
  matrix whenever it returns.
\<close>

lemma dr_outcomes_2d_shape:
  assumes "calculate_dr_outcomes E = calculate_dr_outcomes_spec"
    and "dr_outcomes_2d E D y preds ts = Inr dr"
  shows "shape dr = [length D, length ts - 1]"
  using assms
  by (auto simp add: dr_outcomes_2d_def calculate_dr_outcomes_spec_def Let_def standardize_2d_def
        ndim_def split: if_splits)

text \<open>
  Claim C7 fails on a sample of a single row. After a cross-fitted \<^verbatim>\<open>fit_nuisance\<close> on
  four units in two arms (\<open>n_treat = 1\<close>), \<^verbatim>\<open>get_cate_preds\<close> with one training row
  completes, and the training predictions, which should be a \<open>1 \<times> 1\<close> matrix, have no
  dimension at all: \<^verbatim>\<open>squeeze\<close> removes both axes, and the standardisation only looks for
  one dimension. The same happens to the validation predictions on one validation row.
\<close>

theorem get_cate_preds_single_row:
  "fst (get_cate_preds test_env test_crossfit test_X (Some [5])) = Inr ()
   \<and> n_treat test_crossfit = Some 1
   \<and> map_option shape
       (cate_preds_train (snd (get_cate_preds test_env test_crossfit test_X (Some [5])))) = Some []
   \<and> map_option shape
       (cate_preds_val (snd (get_cate_preds test_env test_crossfit [5] None))) = Some []"
  by (simp add: get_cate_preds_def test_crossfit_arms cate_preds_def test_env_sel np_stack_def
        of_vector_def np_T_def np_squeeze_def standardize_2d_def ndim_def newaxis_last_def
        test_X_def)

text \<open>
  With three arms (\<open>n_treat = 2\<close>) a single row gives a \<open>2 \<times> 1\<close> matrix where a
  \<open>1 \<times> 2\<close> matrix is due: the arms have become the rows.
\<close>

lemma get_cate_preds_single_row_three_arms:
  "fst (get_cate_preds test_env test_crossfit3 [5] None) = Inr ()
   \<and> map_option shape
       (cate_preds_val (snd (get_cate_preds test_env test_crossfit3 [5] None))) = Some [2, 1]"
  by (simp add: get_cate_preds_def test_crossfit3_arms cate_preds_def test_env_sel np_stack_def
        of_vector_def np_T_def np_squeeze_def standardize_2d_def ndim_def newaxis_last_def)

section \<open>Properties: what a call leaves unchanged\<close>


lemma get_cate_preds_sets:
  "get_cate_preds E st Xv Xt = (Inr u, st') \<Longrightarrow> cate_preds_val st' \<noteq> None"
  "get_cate_preds E st Xv (Some X) = (Inr u, st') \<Longrightarrow> cate_preds_train st' \<noteq> None"
  by (auto simp add: get_cate_preds_def Let_def split: option.splits sum.splits)

lemma ensure_cate_preds_cached:
  "cate_preds_val st \<noteq> None \<Longrightarrow> cate_preds_train st \<noteq> None \<Longrightarrow>
   ensure_cate_preds E st Xval Xtrain = (Inr (), st)"
  by (auto simp add: ensure_cate_preds_def)

lemma ensure_cate_preds_sets:
  "ensure_cate_preds E st Xval Xtrain = (Inr u, st') \<Longrightarrow>
   cate_preds_val st' \<noteq> None \<and> cate_preds_train st' \<noteq> None"
  by (auto simp add: ensure_cate_preds_def dest: get_cate_preds_sets
        split: if_splits option.splits)

lemma ensure_cate_preds_val_cached:
  "cate_preds_val st \<noteq> None \<Longrightarrow> ensure_cate_preds_val E st Xval Xtrain = (Inr (), st)"
  by (auto simp add: ensure_cate_preds_val_def)

lemma ensure_cate_preds_val_sets:
  "ensure_cate_preds_val E st Xval Xtrain = (Inr u, st') \<Longrightarrow> cate_preds_val st' \<noteq> None"
  by (auto simp add: ensure_cate_preds_val_def dest: get_cate_preds_sets
        split: if_splits option.splits)

lemma evaluate_cal_cached:
  "cate_preds_val st \<noteq> None \<Longrightarrow> cate_preds_train st \<noteq> None \<Longrightarrow>
   snd (evaluate_cal E st Xval Xtrain n sv stt)
     = (case fst (evaluate_cal E st Xval Xtrain n sv stt) of
          Inl e \<Rightarrow> st
        | Inr r \<Rightarrow> st\<lparr>cal_res := Some r\<rparr>)"
  by (auto simp add: evaluate_cal_def ensure_cate_preds_cached split: sum.splits)

lemma evaluate_uplift_cached:
  "cate_preds_val st \<noteq> None \<Longrightarrow> cate_preds_train st \<noteq> None \<Longrightarrow>
   snd (evaluate_uplift E st Xval Xtrain ps metric nb sv stt)
     = (case fst (evaluate_uplift E st Xval Xtrain ps metric nb sv stt) of
          Inl e \<Rightarrow> st
        | Inr r \<Rightarrow> st\<lparr>uplift_res := Some r\<rparr>)"
  by (auto simp add: evaluate_uplift_def ensure_cate_preds_cached split: sum.splits)

lemma evaluate_blp_cached:
  "cate_preds_val st \<noteq> None \<Longrightarrow>
   snd (evaluate_blp E st Xval Xtrain sv)
     = (case fst (evaluate_blp E st Xval Xtrain sv) of
          Inl e \<Rightarrow> st
        | Inr r \<Rightarrow> st\<lparr>blp_res := Some r\<rparr>)"
  by (auto simp add: evaluate_blp_def ensure_cate_preds_val_cached split: sum.splits)

lemma evaluate_cal_sets:
  "evaluate_cal E st Xval Xtrain n sv stt = (Inr r, st') \<Longrightarrow>
   cate_preds_val st' \<noteq> None \<and> cate_preds_train st' \<noteq> None"
  by (auto simp add: evaluate_cal_def split: if_splits sum.splits prod.splits
        dest: ensure_cate_preds_sets)

lemma evaluate_uplift_sets:
  "evaluate_uplift E st Xval Xtrain ps metric nb sv stt = (Inr r, st') \<Longrightarrow>
   cate_preds_val st' \<noteq> None \<and> cate_preds_train st' \<noteq> None"
  by (auto simp add: evaluate_uplift_def split: if_splits sum.splits prod.splits
        dest: ensure_cate_preds_sets)

lemma evaluate_blp_sets:
  "evaluate_blp E st Xval Xtrain sv = (Inr r, st') \<Longrightarrow> cate_preds_val st' \<noteq> None"
  by (auto simp add: evaluate_blp_def split: if_splits sum.splits prod.splits
        dest: ensure_cate_preds_val_sets)

lemma evaluate_cal_stores:
  "evaluate_cal E st Xval Xtrain n sv stt = (Inr r, st') \<Longrightarrow> cal_res st' = Some r"
  by (auto simp add: evaluate_cal_def split: if_splits sum.splits prod.splits)

lemma evaluate_uplift_stores:
  "evaluate_uplift E st Xval Xtrain ps metric nb sv stt = (Inr r, st') \<Longrightarrow>
   uplift_res st' = Some r"
  by (auto simp add: evaluate_uplift_def split: if_splits sum.splits prod.splits)

lemma evaluate_blp_stores:
  "evaluate_blp E st Xval Xtrain sv = (Inr r, st') \<Longrightarrow> blp_res st' = Some r"
  by (auto simp add: evaluate_blp_def split: if_splits sum.splits prod.splits)

text \<open>
  Claim C9. A test that has completed once has stored its result in its own attribute
  and has left the CATE predictions it needs in the cache, so running it again computes
  none. Whatever the arguments of the second run: when it returns a result \<open>r\<close>, the
  instance afterwards is the instance before with that test's own result attribute
  overwritten by \<open>r\<close>, and when it raises, the instance is the one before, the earlier
  result still in place. The results of the other tests, \<^verbatim>\<open>treatments\<close>, \<^verbatim>\<open>n_treat\<close>,
  the DR outcomes, \<^verbatim>\<open>ate_val\<close> and the cached predictions are the same in both cases.
\<close>

theorem rerun_overwrites_own_result:
  "(evaluate_cal E st0 Xval0 Xtrain0 n0 sv0 stt0 = (Inr rc, st) \<longrightarrow>
      cal_res st = Some rc
      \<and> snd (evaluate_cal E st Xval Xtrain n sv stt)
          = (case fst (evaluate_cal E st Xval Xtrain n sv stt) of
               Inl e \<Rightarrow> st
             | Inr r \<Rightarrow> st\<lparr>cal_res := Some r\<rparr>))
   \<and> (evaluate_blp E st0 Xval0 Xtrain0 sv0 = (Inr rb, st) \<longrightarrow>
      blp_res st = Some rb
      \<and> snd (evaluate_blp E st Xval Xtrain sv)
          = (case fst (evaluate_blp E st Xval Xtrain sv) of
               Inl e \<Rightarrow> st
             | Inr r \<Rightarrow> st\<lparr>blp_res := Some r\<rparr>))
   \<and> (evaluate_uplift E st0 Xval0 Xtrain0 ps0 metric0 nb0 sv0 stt0 = (Inr ru, st) \<longrightarrow>
      uplift_res st = Some ru
      \<and> snd (evaluate_uplift E st Xval Xtrain ps metric nb sv stt)
          = (case fst (evaluate_uplift E st Xval Xtrain ps metric nb sv stt) of
               Inl e \<Rightarrow> st
             | Inr r \<Rightarrow> st\<lparr>uplift_res := Some r\<rparr>))"
proof (intro conjI impI)
  assume a: "evaluate_cal E st0 Xval0 Xtrain0 n0 sv0 stt0 = (Inr rc, st)"
  then show "cal_res st = Some rc"
    by (rule evaluate_cal_stores)
  from a have "cate_preds_val st \<noteq> None" "cate_preds_train st \<noteq> None"
    using evaluate_cal_sets by blast+
  then show "snd (evaluate_cal E st Xval Xtrain n sv stt)
      = (case fst (evaluate_cal E st Xval Xtrain n sv stt) of
           Inl e \<Rightarrow> st
         | Inr r \<Rightarrow> st\<lparr>cal_res := Some r\<rparr>)"
    by (rule evaluate_cal_cached)
next
  assume a: "evaluate_blp E st0 Xval0 Xtrain0 sv0 = (Inr rb, st)"
  then show "blp_res st = Some rb"
    by (rule evaluate_blp_stores)
  from a have "cate_preds_val st \<noteq> None"
    by (rule evaluate_blp_sets)
  then show "snd (evaluate_blp E st Xval Xtrain sv)
      = (case fst (evaluate_blp E st Xval Xtrain sv) of
           Inl e \<Rightarrow> st
         | Inr r \<Rightarrow> st\<lparr>blp_res := Some r\<rparr>)"
    by (rule evaluate_blp_cached)
next
  assume a: "evaluate_uplift E st0 Xval0 Xtrain0 ps0 metric0 nb0 sv0 stt0 = (Inr ru, st)"
  then show "uplift_res st = Some ru"
    by (rule evaluate_uplift_stores)
  from a have "cate_preds_val st \<noteq> None" "cate_preds_train st \<noteq> None"
    using evaluate_uplift_sets by blast+
  then show "snd (evaluate_uplift E st Xval Xtrain ps metric nb sv stt)
      = (case fst (evaluate_uplift E st Xval Xtrain ps metric nb sv stt) of
           Inl e \<Rightarrow> st
         | Inr r \<Rightarrow> st\<lparr>uplift_res := Some r\<rparr>)"
    by (rule evaluate_uplift_cached)
qed

section \<open>Columns and their means\<close>

lemma upt_small: "[0..<4] = [0,1,2,3]" "[0..<3] = [0,1,2]" "[0..<2] = [0,1]" "[0..<Suc 0] = [0]" "[0..<1] = [0]"
  by (simp_all add: upt_rec)

lemma column_entries:
  assumes "column a k = Inr c"
  shows "c = map (\<lambda>i. entry a [i, k]) [0..<shape a ! 0]" "ndim a = 2" "k < shape a ! 1"
    "length c = shape a ! 0"
  using assms by (auto simp add: column_def split: if_splits)

lemma zip_map_upt:
  "length ws = n \<Longrightarrow> zip (map f [0..<n]) ws = map (\<lambda>i. (f i, ws ! i)) [0..<n]"
  by (rule nth_equalityI) simp_all

lemma np_average_axis0_nth:
  assumes av: "np_average_axis0 a w = Inr ates" and col: "column a k = Inr c"
  shows "length ates = shape a ! 1"
    and "ates ! k =
      (case w of
         None \<Rightarrow> if c = [] then NaN else Fin (sum_list c / real (length c))
       | Some ws \<Rightarrow> Fin ((\<Sum>(v, x) \<leftarrow> zip c ws. v * x) / sum_list ws))"
proof -
  note ce = column_entries [OF col]
  show "length ates = shape a ! 1"
    using av ce(2) by (auto simp add: np_average_axis0_def Let_def split: option.splits if_splits)
  show "ates ! k =
      (case w of
         None \<Rightarrow> if c = [] then NaN else Fin (sum_list c / real (length c))
       | Some ws \<Rightarrow> Fin ((\<Sum>(v, x) \<leftarrow> zip c ws. v * x) / sum_list ws))"
  proof (cases w)
    case None
    then show ?thesis
      using av ce by (auto simp add: np_average_axis0_def Let_def split: if_splits)
  next
    case (Some ws)
    then have len: "length ws = shape a ! 0"
      using av ce(2) by (auto simp add: np_average_axis0_def Let_def split: if_splits)
    have "(\<Sum>(v, x) \<leftarrow> zip c ws. v * x) = (\<Sum>i \<leftarrow> [0..<shape a ! 0]. entry a [i, k] * ws ! i)"
      unfolding ce(1) by (simp add: zip_map_upt [OF len] comp_def)
    then show ?thesis
      using Some av ce by (auto simp add: np_average_axis0_def Let_def split: if_splits)
  qed
qed

section \<open>The test bench, evaluated\<close>

lemma test_dr:
  assumes "treatments st = Some [0, 1]"
  shows "\<exists>dr. dr_outcomes_2d test_env test_D test_y (projr (test_nuisance st test_X)) [0, 1] = Inr dr
     \<and> shape dr = [4, 1] \<and> column dr 0 = Inr [-2, 6, -2, 10]"
  using assms
  by (simp add: dr_outcomes_2d_def test_env_sel test_nuisance_def calculate_dr_outcomes_spec_def
    test_D_def test_X_def test_y_def of_rows_def Let_def upt_small standardize_2d_def ndim_def
    column_def dr_entry_def)

lemma test_nuis:
  "treatments st = Some [0, 1] \<Longrightarrow>
   test_nuisance st test_X = Inr (projr (test_nuisance st test_X))"
  by (simp add: test_nuisance_def)

lemma test_ate:
  assumes "dr_val st = Some dr" "shape dr = [4, 1]" "column dr 0 = Inr [-2, 6, -2, 10]"
  shows "set_ate_val st None = (Inr (), st\<lparr>ate_val := Some [Fin 3]\<rparr>)"
proof -
  obtain ates where a: "np_average_axis0 dr None = Inr ates"
    using assms(2) by (simp add: np_average_axis0_def ndim_def Let_def)
  from np_average_axis0_nth [OF a assms(3)] have "length ates = 1" "ates ! 0 = Fin 3"
    using assms(2) by simp_all
  then have "ates = [Fin 3]"
    by (cases ates) simp_all
  then show ?thesis
    using a assms(1) by (simp add: set_ate_val_def)
qed

lemma test_fit:
  "\<exists>st dr drt. fit_nuisance test_env init test_X test_D test_y
                    (Some test_X) (Some test_D) (Some test_y) None None = (Inr (), st)
     \<and> treatments st = Some [0, 1] \<and> n_treat st = Some 1 
     \<and> dr_val st = Some dr \<and> dr_train st = Some drt \<and> ate_val st = Some [Fin 3]
     \<and> cate_preds_val st = None \<and> cate_preds_train st = None
     \<and> cal_res st = None \<and> blp_res st = None \<and> uplift_res st = None
     \<and> shape dr = [4, 1] \<and> column dr 0 = Inr [-2, 6, -2, 10]"
proof -
  let ?st1 = "init\<lparr>Dval := Some test_D, treatments := Some [0, 1], n_treat := Some 1,
                   fit_on_train := Some True\<rparr>"
  have t1: "treatments ?st1 = Some [0, 1]" by simp
  from test_dr [OF t1] obtain drt where drt:
    "dr_outcomes_2d test_env test_D test_y (projr (test_nuisance ?st1 test_X)) [0, 1] = Inr drt"
    by blast
  let ?st2 = "?st1\<lparr>dr_train := Some drt\<rparr>"
  have t2: "treatments ?st2 = Some [0, 1]" by simp
  from test_dr [OF t2] obtain dr where dr:
    "dr_outcomes_2d test_env test_D test_y (projr (test_nuisance ?st2 test_X)) [0, 1] = Inr dr"
    "shape dr = [4, 1]" "column dr 0 = Inr [-2, 6, -2, 10]" by blast
  let ?st3 = "?st2\<lparr>dr_val := Some dr\<rparr>"
  have n1: "test_nuisance ?st1 test_X = Inr (projr (test_nuisance ?st1 test_X))"
    by (rule test_nuis [OF t1])
  have n2: "test_nuisance ?st2 test_X = Inr (projr (test_nuisance ?st2 test_X))"
    by (rule test_nuis [OF t2])
  have br: "fit_on_train_branch test_env ?st1 test_X test_D test_y test_X test_D test_y None [0, 1]
      = (Inr (), ?st3)"
    unfolding fit_on_train_branch_def test_env_sel
    apply (subst n1)
    apply (simp only: sum.case drt Let_def)
    apply (subst n2)
    apply (simp only: sum.case dr)
    done
  have s: "np_sort (np_unique test_D) = [0, 1]"
    by (simp add: np_sort_def np_unique_def test_D_def)
  have ate: "set_ate_val ?st3 None = (Inr (), ?st3\<lparr>ate_val := Some [Fin 3]\<rparr>)"
    by (rule test_ate [OF _ dr(2,3)]) simp
  have "fit_nuisance test_env init test_X test_D test_y
          (Some test_X) (Some test_D) (Some test_y) None None
        = (Inr (), ?st3\<lparr>ate_val := Some [Fin 3]\<rparr>)"
    unfolding fit_nuisance_def s Let_def by (simp add: br ate)
  then show ?thesis
    using dr(2,3) by (simp add: init_def)
qed

lemma test_preds:
  "\<exists>p. cate_preds test_env test_X [0, 1] = Inr p \<and> shape p = [4, 1]
       \<and> column p 0 = Inr [1, 2, 3, 4]"
  by (simp add: cate_preds_def test_env_sel np_stack_def of_vector_def np_T_def np_squeeze_def
        standardize_2d_def ndim_def newaxis_last_def test_X_def column_def upt_small)

lemma test_fitted_facts:
  "\<exists>dr drt pv pt.
     treatments test_fitted = Some [0, 1] \<and> n_treat test_fitted = Some 1
     \<and> dr_val test_fitted = Some dr \<and> dr_train test_fitted = Some drt
     \<and> ate_val test_fitted = Some [Fin 3]
     \<and> cate_preds_val test_fitted = Some pv \<and> cate_preds_train test_fitted = Some pt
     \<and> cal_res test_fitted = None \<and> blp_res test_fitted = None \<and> uplift_res test_fitted = None
     \<and> shape dr = [4, 1] \<and> column dr 0 = Inr [-2, 6, -2, 10]
     \<and> shape pv = [4, 1] \<and> column pv 0 = Inr [1, 2, 3, 4]
     \<and> shape pt = [4, 1] \<and> column pt 0 = Inr [1, 2, 3, 4]"
proof -
  from test_fit obtain st dr drt where st:
    "fit_nuisance test_env init test_X test_D test_y
       (Some test_X) (Some test_D) (Some test_y) None None = (Inr (), st)"
    "treatments st = Some [0, 1]" "n_treat st = Some 1"
    "dr_val st = Some dr" "dr_train st = Some drt" "ate_val st = Some [Fin 3]"
    "cal_res st = None" "blp_res st = None" "uplift_res st = None"
    "shape dr = [4, 1]" "column dr 0 = Inr [-2, 6, -2, 10]"
    by blast
  from test_preds obtain p where p:
    "cate_preds test_env test_X [0, 1] = Inr p" "shape p = [4, 1]"
    "column p 0 = Inr [1, 2, 3, 4]"
    by blast
  have tf: "test_fitted = st\<lparr>cate_preds_val := Some p, cate_preds_train := Some p\<rparr>"
    by (simp add: test_fitted_def st(1,2) get_cate_preds_def p(1))
  show ?thesis
    unfolding tf using st(2-) p(2-) by simp
qed

lemma test_cuts: "weighted_quantile [1, 2, 3, 4] (linspace01 2) [1, 1, 1, 1] = Inr [1, 5 / 2, 4]"
  by (simp add: weighted_quantile_def expand_def linspace01_def quantile_sorted_def Let_def upt_small)

lemma replicate_small: "replicate 2 x = [x, x]" "replicate 4 x = [x, x, x, x]"
  by (simp_all add: numeral_eq_Suc)

lemma test_arm_arrays:
  assumes "dr_val st = Some dr" "cate_preds_val st = Some pv" "cate_preds_train st = Some pt"
    "column dr 0 = Inr [-2, 6, -2, 10]" "column pv 0 = Inr [1, 2, 3, 4]"
    "column pt 0 = Inr [1, 2, 3, 4]"
  shows "arm_arrays test_env st 2 [1, 1, 1, 1] [1, 1, 1, 1] 0 =
     Inr \<lparr>probs = [1 / 2, 1 / 2], g_cate = [3 / 2, 7 / 2], se_g_cate = [Fin 0, Fin 0],
          gate = [2, 4], se_gate = [Fin 0, Fin 0]\<rparr>"
  using assms
  by (simp add: arm_arrays_def test_env_sel test_cuts upt_small cal_bin_def bin_ind_def
        bin_statistics_def mask_select_def masked_column_def np_average_def zero_arrays_def
        store_bin_def replicate_small)

lemma astype_int_values:
  "astype_int 1 = 1" "astype_int (3 / 2) = 1" "astype_int (1 / 2) = 0"
  by (simp_all add: astype_int_def trunc_toward_zero_def int64_min_def int64_max_def)

lemma test_cal_with_weights:
  assumes "treatments st = Some [0, 1]" "n_treat st = Some 1"
    "dr_val st = Some dr" "dr_train st = Some drt" "ate_val st = Some [Fin 3]"
    "cate_preds_val st = Some pv" "cate_preds_train st = Some pt"
    "column dr 0 = Inr [-2, 6, -2, 10]"
    "shape pv = [4, 1]" "column pv 0 = Inr [1, 2, 3, 4]"
    "shape pt = [4, 1]" "column pt 0 = Inr [1, 2, 3, 4]"
  shows "\<exists>r. cal_with_weights test_env st 2 [1, 1, 1, 1] [1, 1, 1, 1] = Inr r
           \<and> cal_r_squared r = [Fin (1 / 2)]"
proof -
  have arm: "cal_arm test_env st 2 [1, 1, 1, 1] [1, 1, 1, 1] 0 =
      Inr (Fin (1 / 2), Cal_df [0, 1] [2, 4] [Fin 0, Fin 0] [3 / 2, 7 / 2] [Fin 0, Fin 0])"
    using assms
    by (simp add: cal_arm_def test_arm_arrays cal_score_g_def cal_score_o_def np_sum_def
          np_sub_def upt_small)
  show ?thesis
    using assms(1,2) by (simp add: cal_with_weights_def arm upt_small)
qed

lemma test_prepared_weights:
  assumes "cate_preds_val st = Some pv" "cate_preds_train st = Some pt"
    "shape pv = [4, 1]" "shape pt = [4, 1]"
    and "wv = None \<or> wv = Some [3 / 2, 1, 1, 1]"
  shows "prepared_weights st wv None = Inr ([1, 1, 1, 1], [1, 1, 1, 1])"
  using assms
  by (auto simp add: prepared_weights_def weights_or_ones_def shape0_def checked_weights_def
        astype_int_values replicate_small Let_def)

lemma test_cal_run:
  assumes "treatments st = Some [0, 1]" "n_treat st = Some 1"
    "dr_val st = Some dr" "dr_train st = Some drt" "ate_val st = Some [Fin 3]"
    "cate_preds_val st = Some pv" "cate_preds_train st = Some pt"
    "column dr 0 = Inr [-2, 6, -2, 10]"
    "shape pv = [4, 1]" "column pv 0 = Inr [1, 2, 3, 4]"
    "shape pt = [4, 1]" "column pt 0 = Inr [1, 2, 3, 4]"
    and "wv = None \<or> wv = Some [3 / 2, 1, 1, 1]"
  shows "\<exists>r. evaluate_cal test_env st Xval Xtrain 2 wv None = (Inr r, st\<lparr>cal_res := Some r\<rparr>)
           \<and> cal_r_squared r = [Fin (1 / 2)]"
proof -
  have w: "prepared_weights st wv None = Inr ([1, 1, 1, 1], [1, 1, 1, 1])"
    by (rule test_prepared_weights [OF assms(6,7,9,11,13)])
  from test_cal_with_weights [OF assms(1-12)]
  have "\<exists>r. cal_compute test_env st 2 wv None = Inr r \<and> cal_r_squared r = [Fin (1 / 2)]"
    by (simp add: cal_compute_def w)
  then show ?thesis
    using assms by (auto simp add: evaluate_cal_def ensure_cate_preds_def)
qed

lemma test_blp_run:
  assumes "treatments st = Some [0, 1]" "n_treat st = Some 1"
    "dr_val st = Some dr" "cate_preds_val st = Some pv"
    "column dr 0 = Inr [-2, 6, -2, 10]"
    "shape pv = [4, 1]" "column pv 0 = Inr [1, 2, 3, 4]"
  shows "\<exists>r. evaluate_blp test_env st Xval Xtrain None = (Inr r, st\<lparr>blp_res := Some r\<rparr>)"
  using assms
  by (simp add: evaluate_blp_def ensure_cate_preds_val_def blp_compute_def weights_or_ones_def
        shape0_def blp_arm_def test_env_sel upt_small)

lemma test_uplift_with_weights:
  assumes "treatments st = Some [0, 1]" "n_treat st = Some 1"
    "dr_val st = Some dr" "cate_preds_val st = Some pv" "cate_preds_train st = Some pt"
    "column dr 0 = Inr [-2, 6, -2, 10]"
    "shape pv = [4, 1]" "column pv 0 = Inr [1, 2, 3, 4]"
    "shape pt = [4, 1]" "column pt 0 = Inr [1, 2, 3, 4]"
  shows "\<exists>r. uplift_with_weights test_env st ps metric nb [1, 1, 1, 1] [1, 1, 1, 1] = Inr r
           \<and> uplift_params r = [1] \<and> uplift_errs r = [1 / 2] \<and> uplift_pvals r = [Fin (1 / 3)]"
  using assms
  by (simp add: uplift_with_weights_def upt_small uplift_arm_def test_env_sel uplift_pval_def
        np_norm_sf_def)

lemma test_uplift_run:
  assumes "treatments st = Some [0, 1]" "n_treat st = Some 1"
    "dr_val st = Some dr" "cate_preds_val st = Some pv" "cate_preds_train st = Some pt"
    "column dr 0 = Inr [-2, 6, -2, 10]"
    "shape pv = [4, 1]" "column pv 0 = Inr [1, 2, 3, 4]"
    "shape pt = [4, 1]" "column pt 0 = Inr [1, 2, 3, 4]"
    and "wv = None \<or> wv = Some [3 / 2, 1, 1, 1]"
  shows "\<exists>r. evaluate_uplift test_env st Xval Xtrain ps metric nb wv None
               = (Inr r, st\<lparr>uplift_res := Some r\<rparr>)
           \<and> uplift_params r = [1] \<and> uplift_errs r = [1 / 2] \<and> uplift_pvals r = [Fin (1 / 3)]"
proof -
  have w: "prepared_weights st wv None = Inr ([1, 1, 1, 1], [1, 1, 1, 1])"
    by (rule test_prepared_weights [OF assms(4,5,7,9,11)])
  from test_uplift_with_weights [OF assms(1-10), of ps metric nb]
  have "\<exists>r. uplift_compute test_env st ps metric nb wv None = Inr r
          \<and> uplift_params r = [1] \<and> uplift_errs r = [1 / 2] \<and> uplift_pvals r = [Fin (1 / 3)]"
    by (simp add: uplift_compute_def w)
  then show ?thesis
    using assms by (auto simp add: evaluate_uplift_def ensure_cate_preds_def)
qed

theorem rerun_overwrites_own_result_witness:
  "(\<exists>rc st. evaluate_cal test_env test_fitted None None 2 None None = (Inr rc, st)
       \<and> cal_res st = Some rc
       \<and> (\<exists>r. evaluate_cal test_env st None None 2 (Some [3 / 2, 1, 1, 1]) None
                 = (Inr r, st\<lparr>cal_res := Some r\<rparr>)))
   \<and> (\<exists>rb st. evaluate_blp test_env test_fitted None None None = (Inr rb, st)
       \<and> blp_res st = Some rb
       \<and> (\<exists>r. evaluate_blp test_env st None None None = (Inr r, st\<lparr>blp_res := Some r\<rparr>)))
   \<and> (\<exists>ru st. evaluate_uplift test_env test_fitted None None default_percentiles ''qini'' 1000
                  None None = (Inr ru, st)
       \<and> uplift_res st = Some ru
       \<and> (\<exists>r. evaluate_uplift test_env st None None default_percentiles ''toc'' 1000
                  None None = (Inr r, st\<lparr>uplift_res := Some r\<rparr>)))"
proof -
  from test_fitted_facts obtain dr drt pv pt where f:
    "treatments test_fitted = Some [0, 1]" "n_treat test_fitted = Some 1"
    "dr_val test_fitted = Some dr" "dr_train test_fitted = Some drt"
    "ate_val test_fitted = Some [Fin 3]"
    "cate_preds_val test_fitted = Some pv" "cate_preds_train test_fitted = Some pt"
    "column dr 0 = Inr [-2, 6, -2, 10]"
    "shape pv = [4, 1]" "column pv 0 = Inr [1, 2, 3, 4]"
    "shape pt = [4, 1]" "column pt 0 = Inr [1, 2, 3, 4]"
    by blast
  from test_cal_run [OF f, of None None None] obtain rc where
    rc: "evaluate_cal test_env test_fitted None None 2 None None
           = (Inr rc, test_fitted\<lparr>cal_res := Some rc\<rparr>)"
    by auto
  have "\<exists>r. fst (evaluate_cal test_env (test_fitted\<lparr>cal_res := Some rc\<rparr>) None None 2
                   (Some [3 / 2, 1, 1, 1]) None) = Inr r"
    using test_cal_run [of "test_fitted\<lparr>cal_res := Some rc\<rparr>" dr drt pv pt
        "Some [3 / 2, 1, 1, 1]" None None] f
    by auto
  then obtain rc' where
    rc': "fst (evaluate_cal test_env (test_fitted\<lparr>cal_res := Some rc\<rparr>) None None 2
                 (Some [3 / 2, 1, 1, 1]) None) = Inr rc'"
    by blast
  from test_blp_run [OF f(1,2,3,6,8,9,10), of None None] obtain rb where
    rb: "evaluate_blp test_env test_fitted None None None
           = (Inr rb, test_fitted\<lparr>blp_res := Some rb\<rparr>)"
    by auto
  have "\<exists>r. fst (evaluate_blp test_env (test_fitted\<lparr>blp_res := Some rb\<rparr>) None None None)
              = Inr r"
    using test_blp_run [of "test_fitted\<lparr>blp_res := Some rb\<rparr>" dr pv None None] f
    by auto
  then obtain rb' where
    rb': "fst (evaluate_blp test_env (test_fitted\<lparr>blp_res := Some rb\<rparr>) None None None)
            = Inr rb'"
    by blast
  from test_uplift_run [OF f(1,2,3,6,7,8,9,10,11,12), of None None None default_percentiles
      "''qini''" 1000]
  obtain ru where
    ru: "evaluate_uplift test_env test_fitted None None default_percentiles ''qini'' 1000
           None None = (Inr ru, test_fitted\<lparr>uplift_res := Some ru\<rparr>)"
    by auto
  have "\<exists>r. fst (evaluate_uplift test_env (test_fitted\<lparr>uplift_res := Some ru\<rparr>) None None
                   default_percentiles ''toc'' 1000 None None) = Inr r"
    using test_uplift_run [of "test_fitted\<lparr>uplift_res := Some ru\<rparr>" dr pv pt None None None
        default_percentiles "''toc''" 1000] f
    by auto
  then obtain ru' where
    ru': "fst (evaluate_uplift test_env (test_fitted\<lparr>uplift_res := Some ru\<rparr>) None None
                 default_percentiles ''toc'' 1000 None None) = Inr ru'"
    by blast
  have c: "cal_res (test_fitted\<lparr>cal_res := Some rc\<rparr>) = Some rc
      \<and> evaluate_cal test_env (test_fitted\<lparr>cal_res := Some rc\<rparr>) None None 2
            (Some [3 / 2, 1, 1, 1]) None
          = (Inr rc', test_fitted\<lparr>cal_res := Some rc'\<rparr>)"
    using rc rc'
      rerun_overwrites_own_result [where E = test_env and ?st0.0 = test_fitted
        and ?Xval0.0 = None and ?Xtrain0.0 = None and ?n0.0 = 2 and ?sv0.0 = None
        and ?stt0.0 = None and rc = rc and st = "test_fitted\<lparr>cal_res := Some rc\<rparr>"
        and Xval = None and Xtrain = None and n = 2 and sv = "Some [3 / 2, 1, 1, 1]"
        and stt = None]
    by (simp add: prod_eq_iff)
  have b: "blp_res (test_fitted\<lparr>blp_res := Some rb\<rparr>) = Some rb
      \<and> evaluate_blp test_env (test_fitted\<lparr>blp_res := Some rb\<rparr>) None None None
          = (Inr rb', test_fitted\<lparr>blp_res := Some rb'\<rparr>)"
    using rb rb'
      rerun_overwrites_own_result [where E = test_env and ?st0.0 = test_fitted
        and ?Xval0.0 = None and ?Xtrain0.0 = None and ?sv0.0 = None
        and rb = rb and st = "test_fitted\<lparr>blp_res := Some rb\<rparr>"
        and Xval = None and Xtrain = None and sv = None]
    by (simp add: prod_eq_iff)
  have u: "uplift_res (test_fitted\<lparr>uplift_res := Some ru\<rparr>) = Some ru
      \<and> evaluate_uplift test_env (test_fitted\<lparr>uplift_res := Some ru\<rparr>) None None
            default_percentiles ''toc'' 1000 None None
          = (Inr ru', test_fitted\<lparr>uplift_res := Some ru'\<rparr>)"
    using ru ru'
      rerun_overwrites_own_result [where E = test_env and ?st0.0 = test_fitted
        and ?Xval0.0 = None and ?Xtrain0.0 = None and ?ps0.0 = default_percentiles
        and ?metric0.0 = "''qini''" and ?nb0.0 = 1000 and ?sv0.0 = None and ?stt0.0 = None
        and ru = ru and st = "test_fitted\<lparr>uplift_res := Some ru\<rparr>"
        and Xval = None and Xtrain = None and ps = default_percentiles
        and metric = "''toc''" and nb = 1000 and sv = None and stt = None]
    by (simp add: prod_eq_iff)
  show ?thesis
  proof (intro conjI)
    show "\<exists>rc st. evaluate_cal test_env test_fitted None None 2 None None = (Inr rc, st)
       \<and> cal_res st = Some rc
       \<and> (\<exists>r. evaluate_cal test_env st None None 2 (Some [3 / 2, 1, 1, 1]) None
                 = (Inr r, st\<lparr>cal_res := Some r\<rparr>))"
      using rc c by (intro exI [of _ rc] exI [of _ "test_fitted\<lparr>cal_res := Some rc\<rparr>"]) auto
    show "\<exists>rb st. evaluate_blp test_env test_fitted None None None = (Inr rb, st)
       \<and> blp_res st = Some rb
       \<and> (\<exists>r. evaluate_blp test_env st None None None = (Inr r, st\<lparr>blp_res := Some r\<rparr>))"
      using rb b by (intro exI [of _ rb] exI [of _ "test_fitted\<lparr>blp_res := Some rb\<rparr>"]) auto
    show "\<exists>ru st. evaluate_uplift test_env test_fitted None None default_percentiles ''qini''
                  1000 None None = (Inr ru, st)
       \<and> uplift_res st = Some ru
       \<and> (\<exists>r. evaluate_uplift test_env st None None default_percentiles ''toc'' 1000
                  None None = (Inr r, st\<lparr>uplift_res := Some r\<rparr>))"
      using ru u by (intro exI [of _ ru] exI [of _ "test_fitted\<lparr>uplift_res := Some ru\<rparr>"]) auto
  qed
qed

section \<open>Properties: the p-value of the uplift test\<close>

lemma collect_nth:
  assumes "collect f ks = Inr vs"
  shows "length vs = length ks" and "\<And>i. i < length ks \<Longrightarrow> f (ks ! i) = Inr (vs ! i)"
proof -
  have "length vs = length ks \<and> (\<forall>i < length ks. f (ks ! i) = Inr (vs ! i))"
    using assms
  proof (induction ks arbitrary: vs)
    case Nil
    then show ?case by simp
  next
    case (Cons k ks)
    from Cons.prems obtain v vs' where v: "f k = Inr v" "collect f ks = Inr vs'" "vs = v # vs'"
      by (auto split: sum.splits)
    from Cons.IH [OF v(2)] show ?case
      using v by (auto simp add: nth_Cons split: nat.splits)
  qed
  then show "length vs = length ks" and "\<And>i. i < length ks \<Longrightarrow> f (ks ! i) = Inr (vs ! i)"
    by simp_all
qed

lemma uplift_pval_finite:
  "e \<noteq> 0 \<Longrightarrow> uplift_pval E q e = Fin (2 * norm_sf E \<bar>q / e\<bar>)"
  by (simp add: uplift_pval_def np_norm_sf_def)

lemma uplift_arm_Inr:
  assumes "uplift_arm E st ps metric nb wv wt k = Inr a"
  shows "\<exists>pt pv dr ct cv d curve.
           cate_preds_train st = Some pt \<and> column pt k = Inr ct
           \<and> cate_preds_val st = Some pv \<and> column pv k = Inr cv
           \<and> dr_val st = Some dr \<and> column dr k = Inr d
           \<and> calc_uplift E ct cv d ps metric nb wt wv = Inr (fst (fst a), snd (fst a), curve)"
  using assms
  by (auto simp add: uplift_arm_def split: option.splits sum.splits prod.splits if_splits)

text \<open>
  Claim C8. When \<^verbatim>\<open>evaluate_uplift\<close> returns, it reports one coefficient, one standard
  error and one p-value per arm; coefficient and standard error of arm \<open>k\<close> are what
  \<^verbatim>\<open>calc_uplift\<close> returned for the arm's columns, and the p-value is twice the standard
  normal survival function at the absolute value of their quotient. The quotient is
  numpy's, so the formula covers a zero standard error as well; when the standard error is
  not zero, the p-value is the real number \<open>2 * sf \<bar>q / e\<bar>\<close>.
\<close>

theorem uplift_pvalue:
  assumes run: "evaluate_uplift E st Xval Xtrain ps metric nb sv stt = (Inr r, st')"
    and k: "k < length (uplift_params r)"
  shows "length (uplift_pvals r) = length (uplift_params r)
     \<and> length (uplift_errs r) = length (uplift_params r)
     \<and> n_treat st' = Some (int (length (uplift_params r)))
     \<and> (\<exists>pt pv dr ct cv d wt wv curve.
           cate_preds_train st' = Some pt \<and> column pt k = Inr ct
           \<and> cate_preds_val st' = Some pv \<and> column pv k = Inr cv
           \<and> dr_val st' = Some dr \<and> column dr k = Inr d
           \<and> calc_uplift E ct cv d ps metric nb wt wv
                 = Inr (uplift_params r ! k, uplift_errs r ! k, curve))
     \<and> uplift_pvals r ! k =
         np_mul (Fin 2)
           (np_norm_sf E (np_abs (np_true_divide (Fin (uplift_params r ! k))
                                                 (Fin (uplift_errs r ! k)))))
     \<and> (uplift_errs r ! k \<noteq> 0 \<longrightarrow>
          uplift_pvals r ! k = Fin (2 * norm_sf E \<bar>uplift_params r ! k / uplift_errs r ! k\<bar>))"
proof -
  from run obtain st1 where
    comp: "uplift_compute E st1 ps metric nb sv stt = Inr r" and st': "st' = st1\<lparr>uplift_res := Some r\<rparr>"
    by (auto simp add: evaluate_uplift_def split: if_splits prod.splits sum.splits)
  from comp obtain wv wt m arms ts where
    m: "n_treat st1 = Some m"
    and arms: "collect (uplift_arm E st1 ps metric nb wv wt) [0..<nat m] = Inr arms"
    and r: "r = UpliftEvaluationResults (map (fst \<circ> fst) arms) (map (snd \<circ> fst) arms)
                 (map (\<lambda>a. uplift_pval E (fst (fst a)) (snd (fst a))) arms) ts
                 (curve_dict (map snd arms))"
    by (auto simp add: uplift_compute_def uplift_with_weights_def
          split: sum.splits option.splits prod.splits)
  note c = collect_nth [OF arms]
  have len: "length arms = nat m" using c(1) by simp
  have k': "k < nat m" using k r len by simp
  then have mpos: "0 < m" by simp
  have armk: "uplift_arm E st1 ps metric nb wv wt k = Inr (arms ! k)"
    using c(2) [of k] k' by simp
  from uplift_arm_Inr [OF armk]
  have "\<exists>pt pv dr ct cv d wt wv curve.
           cate_preds_train st' = Some pt \<and> column pt k = Inr ct
           \<and> cate_preds_val st' = Some pv \<and> column pv k = Inr cv
           \<and> dr_val st' = Some dr \<and> column dr k = Inr d
           \<and> calc_uplift E ct cv d ps metric nb wt wv
                 = Inr (fst (fst (arms ! k)), snd (fst (arms ! k)), curve)"
    unfolding st' by simp blast
  moreover have pv: "uplift_pvals r ! k = uplift_pval E (uplift_params r ! k) (uplift_errs r ! k)"
    using r len k' by simp
  moreover have "uplift_errs r ! k \<noteq> 0 \<longrightarrow>
      uplift_pvals r ! k = Fin (2 * norm_sf E \<bar>uplift_params r ! k / uplift_errs r ! k\<bar>)"
    unfolding pv using uplift_pval_finite by blast
  moreover have "length (uplift_pvals r) = length (uplift_params r)"
    "length (uplift_errs r) = length (uplift_params r)"
    "n_treat st' = Some (int (length (uplift_params r)))"
    using r len m st' mpos by simp_all
  ultimately show ?thesis
    unfolding uplift_pval_def using r len k' by simp
qed

theorem uplift_pvalue_witness:
  "\<exists>r st'. evaluate_uplift test_env test_fitted None None default_percentiles ''qini'' 1000
              None None = (Inr r, st')
     \<and> 0 < length (uplift_params r)
     \<and> uplift_errs r ! 0 \<noteq> 0
     \<and> uplift_pvals r ! 0 =
         Fin (2 * norm_sf test_env \<bar>uplift_params r ! 0 / uplift_errs r ! 0\<bar>)
     \<and> uplift_pvals r ! 0 = Fin (1 / 3)"
proof -
  from test_fitted_facts obtain dr drt pv pt where f:
    "treatments test_fitted = Some [0, 1]" "n_treat test_fitted = Some 1"
    "dr_val test_fitted = Some dr"
    "cate_preds_val test_fitted = Some pv" "cate_preds_train test_fitted = Some pt"
    "column dr 0 = Inr [-2, 6, -2, 10]"
    "shape pv = [4, 1]" "column pv 0 = Inr [1, 2, 3, 4]"
    "shape pt = [4, 1]" "column pt 0 = Inr [1, 2, 3, 4]"
    by blast
  from test_uplift_run [OF f, of None None None default_percentiles "''qini''" 1000]
  obtain r where
    r: "evaluate_uplift test_env test_fitted None None default_percentiles ''qini'' 1000
          None None = (Inr r, test_fitted\<lparr>uplift_res := Some r\<rparr>)"
      "uplift_params r = [1]" "uplift_errs r = [1 / 2]" "uplift_pvals r = [Fin (1 / 3)]"
    by auto
  have k: "0 < length (uplift_params r)"
    using r(2) by simp
  show ?thesis
    using uplift_pvalue [OF r(1) k] r by (auto simp add: np_norm_sf_def)
qed

section \<open>Properties: the sample weights\<close>



























section \<open>Properties: the assignment of units to bins\<close>

lemma bin_ind_Inr:
  "i + 1 < length cuts \<Longrightarrow>
   bin_ind n cuts vals i =
     Inr (map (\<lambda>v. if i + 1 < n then cuts ! i \<le> v \<and> v < cuts ! (i + 1)
                    else cuts ! i \<le> v \<and> v \<le> cuts ! (i + 1)) vals)"
  by (simp add: bin_ind_def)

lemma in_bin_iff:
  assumes "i + 1 < length cuts" "j < length vals"
  shows "in_bin n cuts vals i j \<longleftrightarrow>
     (if i + 1 < n then cuts ! i \<le> vals ! j \<and> vals ! j < cuts ! (i + 1)
      else cuts ! i \<le> vals ! j \<and> vals ! j \<le> cuts ! (i + 1))"
  using assms by (simp add: in_bin_def bin_ind_Inr)

lemma in_bin_unique:
  assumes len: "length cuts = n + 1" and srt: "sorted cuts"
    and j: "j < length vals" and i: "i < n" "i' < n"
    and m: "in_bin n cuts vals i j" "in_bin n cuts vals i' j"
  shows "i = i'"
proof -
  have aux: False if lt: "a < b" and b: "b < n" and ma: "in_bin n cuts vals a j"
    and mb: "in_bin n cuts vals b j" for a b
  proof -
    have "vals ! j < cuts ! (a + 1)"
      using ma lt b j len by (simp add: in_bin_iff)
    moreover have "cuts ! (a + 1) \<le> cuts ! b"
      using srt lt b len by (simp add: sorted_nth_mono)
    moreover have "cuts ! b \<le> vals ! j"
      using mb b j len by (simp add: in_bin_iff split: if_splits)
    ultimately show False by simp
  qed
  show ?thesis
    using aux [of i i'] aux [of i' i] i m by (cases i i' rule: linorder_cases) auto
qed

lemma in_bin_exists:
  assumes len: "length cuts = n + 1" and srt: "sorted cuts"
    and j: "j < length vals" and n: "0 < n"
    and lo: "cuts ! 0 \<le> vals ! j" and hi: "vals ! j \<le> cuts ! n"
  shows "\<exists>i < n. in_bin n cuts vals i j"
proof (cases "vals ! j < cuts ! n")
  case False
  then have "vals ! j = cuts ! n" using hi by simp
  moreover have "cuts ! (n - 1) \<le> cuts ! n"
    using srt len by (simp add: sorted_nth_mono)
  ultimately have "in_bin n cuts vals (n - 1) j"
    using n j len by (simp add: in_bin_iff)
  then show ?thesis using n by (metis diff_less zero_less_one)
next
  case True
  define b where "b = (LEAST b. vals ! j < cuts ! b)"
  have b: "vals ! j < cuts ! b"
    unfolding b_def using True by (rule LeastI)
  have bn: "b \<le> n"
    unfolding b_def using True by (rule Least_le)
  have b0: "b \<noteq> 0"
    using b lo by (cases b) auto
  then have prev: "\<not> vals ! j < cuts ! (b - 1)"
    unfolding b_def using not_less_Least [of "b - 1" "\<lambda>b. vals ! j < cuts ! b"]
    by (simp add: b_def)
  have ge: "cuts ! (b - 1) \<le> vals ! j"
    using prev by simp
  have suc: "b - 1 + 1 = b"
    using b0 by simp
  have "in_bin n cuts vals (b - 1) j"
    using b ge bn j len b0 by (subst in_bin_iff) (auto simp add: suc)
  moreover have "b - 1 < n"
    using b0 bn by simp
  ultimately show ?thesis by blast
qed

text \<open>
  Claim C3, amended. With \<open>n_groups + 1\<close> nondecreasing cut points, unit \<open>j\<close> is in bin
  \<open>i\<close> exactly if its prediction lies in \<open>[cuts[i], cuts[i+1])\<close>, or in
  \<open>[cuts[i], cuts[i+1]]\<close> for the last bin; no unit is in two bins; and a unit is in a bin
  exactly if its prediction lies between the first and the last cut point. A validation
  unit whose prediction lies outside the range of the training cut points is in no bin.
\<close>

theorem bin_assignment:
  assumes len: "length cuts = n + 1" and srt: "sorted cuts" and j: "j < length vals"
  shows "(\<forall>i < n. in_bin n cuts vals i j \<longleftrightarrow>
            (if i + 1 < n then cuts ! i \<le> vals ! j \<and> vals ! j < cuts ! (i + 1)
             else cuts ! i \<le> vals ! j \<and> vals ! j \<le> cuts ! (i + 1)))
       \<and> (\<forall>i < n. \<forall>i' < n. in_bin n cuts vals i j \<and> in_bin n cuts vals i' j \<longrightarrow> i = i')
       \<and> ((\<exists>!i. i < n \<and> in_bin n cuts vals i j) \<longleftrightarrow>
            0 < n \<and> cuts ! 0 \<le> vals ! j \<and> vals ! j \<le> cuts ! n)"
proof (intro conjI)
  show iff: "\<forall>i < n. in_bin n cuts vals i j \<longleftrightarrow>
            (if i + 1 < n then cuts ! i \<le> vals ! j \<and> vals ! j < cuts ! (i + 1)
             else cuts ! i \<le> vals ! j \<and> vals ! j \<le> cuts ! (i + 1))"
    using len j by (simp add: in_bin_iff)
  show uniq: "\<forall>i < n. \<forall>i' < n. in_bin n cuts vals i j \<and> in_bin n cuts vals i' j \<longrightarrow> i = i'"
    using in_bin_unique [OF len srt j] by blast
  show "(\<exists>!i. i < n \<and> in_bin n cuts vals i j) \<longleftrightarrow>
            0 < n \<and> cuts ! 0 \<le> vals ! j \<and> vals ! j \<le> cuts ! n"
  proof
    assume "\<exists>!i. i < n \<and> in_bin n cuts vals i j"
    then obtain i where i: "i < n" "in_bin n cuts vals i j" by blast
    then have a: "cuts ! i \<le> vals ! j" "vals ! j \<le> cuts ! (i + 1)"
      using iff by (auto split: if_splits)
    have "cuts ! 0 \<le> cuts ! i" "cuts ! (i + 1) \<le> cuts ! n"
      using srt len i(1) by (simp_all add: sorted_nth_mono)
    then show "0 < n \<and> cuts ! 0 \<le> vals ! j \<and> vals ! j \<le> cuts ! n"
      using a i(1) by simp
  next
    assume "0 < n \<and> cuts ! 0 \<le> vals ! j \<and> vals ! j \<le> cuts ! n"
    then have "\<exists>i < n. in_bin n cuts vals i j"
      using in_bin_exists [OF len srt j] by blast
    then show "\<exists>!i. i < n \<and> in_bin n cuts vals i j"
      using uniq by blast
  qed
qed

theorem bin_assignment_witness:
  "length [1, 5 / 2, 4 :: real] = 2 + 1 \<and> sorted [1, 5 / 2, 4 :: real]
   \<and> (3 :: nat) < length [1, 2, 3, 4 :: real]
   \<and> in_bin 2 [1, 5 / 2, 4] [1, 2, 3, 4] 1 3
   \<and> \<not> in_bin 2 [1, 5 / 2, 4] [1, 2, 3, 4] 0 3
   \<and> [1, 5 / 2, 4 :: real] ! 0 \<le> [1, 2, 3, 4] ! 3
   \<and> [1, 2, 3, 4 :: real] ! 3 \<le> [1, 5 / 2, 4] ! 2"
proof -
  have a: "length [1, 5 / 2, 4 :: real] = 2 + 1" "sorted [1, 5 / 2, 4 :: real]"
    "(3 :: nat) < length [1, 2, 3, 4 :: real]"
    by simp_all
  have two: "i < 2 \<longleftrightarrow> i = 0 \<or> i = 1" for i :: nat
    by auto
  show ?thesis
    using bin_assignment [OF a] by (simp add: two)
qed

text \<open>
  Claim C3 as stated fails: with training predictions 1, 2, 3, 4 of weight one and two
  groups the cut points are 1, 2.5 and 4, and a validation unit with prediction 5 is in
  neither bin.
\<close>

theorem unit_outside_cuts_unassigned:
  "weighted_quantile [1, 2, 3, 4] (linspace01 2) [1, 1, 1, 1] = Inr [1, 5 / 2, 4]
   \<and> \<not> in_bin 2 [1, 5 / 2, 4] [5] 0 0
   \<and> \<not> in_bin 2 [1, 5 / 2, 4] [5] 1 0"
  by (simp add: test_cuts in_bin_def bin_ind_def)

section \<open>Properties: the statistics of a bin\<close>












section \<open>Properties: the loop over the bins\<close>







section \<open>Properties: bins without members\<close>









section \<open>Properties: the calibration score\<close>














lemma prepared_weights_cong:
  "cate_preds_val st = cate_preds_val st' \<Longrightarrow> cate_preds_train st = cate_preds_train st' \<Longrightarrow>
   prepared_weights st sv stt = prepared_weights st' sv stt"
  by (simp add: prepared_weights_def)




end
